theory Spec2Isabelle
  imports Complex_Main "HOL-Library.Product_Lexorder" "HOL-Library.Sublist" "HOL-Library.Word"
    "HOL-Library.Log_Nat"
begin

unbundle bit_operations_syntax

section \<open>Basic data\<close>

text \<open>
  UUIDs are 128-bit values; only their identity and their order matter here, so they are
  natural numbers. Timestamps (\<open>timestamptz\<close> columns, \<open>now()\<close>) are integers counting
  microseconds. JSON documents (JSONB columns, response bodies) are a datatype; a JSON
  object keeps its members as an association list.
\<close>

type_synonym uuid = nat
type_synonym timestamp = int

datatype jvalue =
    JNull
  | JBool bool
  | JInt int
  | JNum rat
  | JStr string
  | JArr "jvalue list"
  | JObj "(string \<times> jvalue) list"

section \<open>Idempotency keys (\<open>sleep/repository.py\<close>, \<open>sleep/domain/orm.py\<close>)\<close>

text \<open>
  \<open>IdempotencyKeyModel\<close>: the key string is the primary key, so the table is a map from
  keys to the remaining columns.
\<close>

record IdempotencyKeyModel =
  ik_source :: string
  ik_request_hash :: string
  ik_status_code :: "int option"
  ik_response_body :: "jvalue option"
  ik_locked_at :: "timestamp option"
  ik_created_at :: timestamp
  ik_expires_at :: timestamp

type_synonym idempotency_keys = "string \<rightharpoonup> IdempotencyKeyModel"

text \<open>The server default of \<open>expires_at\<close>: \<open>now() + interval '24 hours'\<close>, in microseconds.\<close>

definition idempotency_ttl :: int where
  "idempotency_ttl = 24 * 60 * 60 * 1000000"

datatype claim_status =
    Claimed
  | Completed int "jvalue option"
  | InFlight
  | Conflict

text \<open>\<open>DELETE FROM idempotency_keys WHERE key = :key AND expires_at <= now()\<close>\<close>

definition purge_expired :: "timestamp \<Rightarrow> string \<Rightarrow> idempotency_keys \<Rightarrow> idempotency_keys" where
  "purge_expired now k tbl =
     (case tbl k of
        None \<Rightarrow> tbl
      | Some r \<Rightarrow> if ik_expires_at r \<le> now then tbl(k := None) else tbl)"

text \<open>
  \<open>INSERT ... ON CONFLICT (key) DO NOTHING\<close> with \<open>locked_at = now()\<close>; the result is the
  statement's row count and the table.
\<close>

definition insert_do_nothing ::
  "timestamp \<Rightarrow> string \<Rightarrow> string \<Rightarrow> string \<Rightarrow> idempotency_keys \<Rightarrow> nat \<times> idempotency_keys" where
  "insert_do_nothing now k src h tbl =
     (case tbl k of
        Some r \<Rightarrow> (0, tbl)
      | None \<Rightarrow>
          (1, tbl(k \<mapsto> \<lparr> ik_source = src, ik_request_hash = h, ik_status_code = None,
                          ik_response_body = None, ik_locked_at = Some now,
                          ik_created_at = now, ik_expires_at = now + idempotency_ttl \<rparr>)))"

text \<open>\<open>SELECT ... WHERE key = :key AND expires_at > now()\<close>, \<open>scalar_one_or_none\<close>\<close>

definition select_live :: "timestamp \<Rightarrow> string \<Rightarrow> idempotency_keys \<Rightarrow> IdempotencyKeyModel option" where
  "select_live now k tbl =
     (case tbl k of
        None \<Rightarrow> None
      | Some r \<Rightarrow> if ik_expires_at r > now then Some r else None)"

text \<open>
  \<open>SleepDayRepository.atomic_claim_idempotency_key\<close>. The three statements run in one
  transaction, so \<open>now()\<close> is the same instant in each.
\<close>

definition atomic_claim_idempotency_key ::
  "timestamp \<Rightarrow> idempotency_keys \<Rightarrow> string \<Rightarrow> string \<Rightarrow> string \<Rightarrow> claim_status \<times> idempotency_keys" where
  "atomic_claim_idempotency_key now tbl k src h =
     (let tbl1 = purge_expired now k tbl;
          (rowcount, tbl2) = insert_do_nothing now k src h tbl1
      in if rowcount = 1 then (Claimed, tbl2)
         else
           (case select_live now k tbl2 of
              None \<Rightarrow>
                (let (retry_rowcount, tbl3) = insert_do_nothing now k src h tbl2
                 in if retry_rowcount = 1 then (Claimed, tbl3) else (InFlight, tbl3))
            | Some existing \<Rightarrow>
                if ik_request_hash existing \<noteq> h then (Conflict, tbl2)
                else
                  (case ik_status_code existing of
                     Some code \<Rightarrow> (Completed code (ik_response_body existing), tbl2)
                   | None \<Rightarrow> (InFlight, tbl2))))"

text \<open>\<open>SleepDayRepository.complete_idempotency_key\<close>: an \<open>UPDATE ... WHERE key = :key\<close>.\<close>

definition complete_idempotency_key ::
  "idempotency_keys \<Rightarrow> string \<Rightarrow> int \<Rightarrow> jvalue \<Rightarrow> idempotency_keys" where
  "complete_idempotency_key tbl k code body =
     (case tbl k of
        None \<Rightarrow> tbl
      | Some r \<Rightarrow> tbl(k \<mapsto> r\<lparr> ik_status_code := Some code, ik_response_body := Some body,
                               ik_locked_at := None \<rparr>))"

text \<open>A completed row, live until instant 100, used to run the claim on concrete tables.\<close>

definition example_key_row :: IdempotencyKeyModel where
  "example_key_row =
     \<lparr> ik_source = ''oura'', ik_request_hash = ''h1'', ik_status_code = Some 201,
       ik_response_body = Some (JObj [(''status'', JStr ''created'')]),
       ik_locked_at = None, ik_created_at = 0, ik_expires_at = 100 \<rparr>"

section \<open>Dates and instants\<close>

text \<open>
  \<open>datetime.date\<close>: year, month and day, ordered lexicographically. A \<open>datetime\<close> is
  an instant in microseconds together with its \<open>tzinfo\<close> (the offset from UTC, \<open>None\<close>
  for a naive value); aware values compare by their instant.
\<close>

datatype date = Date (year: nat) (month: nat) (day: nat)

definition date_key :: "date \<Rightarrow> nat \<times> nat \<times> nat" where
  "date_key d = (year d, month d, day d)"

datatype datetime = DateTime (instant: int) (tzinfo: "int option")

section \<open>Canonical rows (\<open>sleep/domain/orm.py\<close>)\<close>

text \<open>
  \<open>SleepDayModel\<close>, one row of \<open>sleep_days\<close>; the dictionary handed to \<open>upsert\<close> has the
  same keys. What is archived as \<open>raw_payload\<close> is a JSON document.
\<close>

record SleepDayModel =
  row_id :: uuid
  row_patient_id :: uuid
  row_source :: string
  row_source_record_id :: string
  row_raw_payload :: jvalue
  row_fingerprint :: string
  row_effective_date :: date
  row_ingested_at :: timestamp
  row_updated_at :: timestamp
  row_total_sleep_minutes :: "int option"
  row_deep_sleep_minutes :: "int option"
  row_light_sleep_minutes :: "int option"
  row_rem_sleep_minutes :: "int option"
  row_awake_minutes :: "int option"
  row_sleep_onset :: "datetime option"
  row_sleep_offset :: "datetime option"
  row_sleep_efficiency :: "rat option"
  row_extra :: "(string \<times> jvalue) list"

text \<open>
  An \<open>IntegrityError\<close> as the pipeline reads it: the constraint name of the driver's
  exception and the text of \<open>str(exc)\<close>. SQLAlchemy appends the statement to the
  database's message, so the text names every column of the \<open>INSERT\<close> (abridged here).
\<close>

record IntegrityError =
  constraint_name :: string
  message :: string

definition upsert_statement :: string where
  "upsert_statement =
     ''[SQL: INSERT INTO sleep_days (id, patient_id, source, source_record_id, raw_payload, fingerprint, effective_date, ingested_at, updated_at, total_sleep_minutes, deep_sleep_minutes, light_sleep_minutes, rem_sleep_minutes, awake_minutes, sleep_onset, sleep_offset, sleep_efficiency, extra) VALUES (...) ON CONFLICT (fingerprint) DO UPDATE SET ... RETURNING sleep_days.id, (xmax = 0) AS was_inserted]''"

definition unique_violation :: "string \<Rightarrow> string \<Rightarrow> IntegrityError" where
  "unique_violation name cols =
     \<lparr> constraint_name = name,
       message = ''duplicate key value violates unique constraint '' @ name
                 @ '' DETAIL: Key ('' @ cols @ '') already exists. '' @ upsert_statement \<rparr>"

definition check_violation :: "string \<Rightarrow> IntegrityError" where
  "check_violation name =
     \<lparr> constraint_name = name,
       message = ''new row for relation sleep_days violates check constraint '' @ name
                 @ '' '' @ upsert_statement \<rparr>"

text \<open>
  The CHECK constraints of \<open>sleep_days\<close>, in the order of \<open>__table_args__\<close>; a constraint
  over a NULL column is satisfied. The result is the first constraint violated.
\<close>

definition nonneg_opt :: "int option \<Rightarrow> bool" where
  "nonneg_opt v = (case v of None \<Rightarrow> True | Some n \<Rightarrow> 0 \<le> n)"

definition check_constraints :: "SleepDayModel \<Rightarrow> string option" where
  "check_constraints r =
     (if \<not> nonneg_opt (row_total_sleep_minutes r) then Some ''chk_total_sleep_minutes''
      else if \<not> nonneg_opt (row_deep_sleep_minutes r) then Some ''chk_deep_sleep_minutes''
      else if \<not> nonneg_opt (row_light_sleep_minutes r) then Some ''chk_light_sleep_minutes''
      else if \<not> nonneg_opt (row_rem_sleep_minutes r) then Some ''chk_rem_sleep_minutes''
      else if \<not> nonneg_opt (row_awake_minutes r) then Some ''chk_awake_minutes''
      else if (case row_sleep_efficiency r of None \<Rightarrow> False | Some e \<Rightarrow> \<not> (0 \<le> e \<and> e \<le> 1))
        then Some ''chk_sleep_efficiency''
      else if (case (row_sleep_onset r, row_sleep_offset r) of
                 (Some onset, Some offset) \<Rightarrow> \<not> (instant offset > instant onset)
               | _ \<Rightarrow> False)
        then Some ''chk_sleep_offset_after_onset''
      else None)"

text \<open>
  The \<open>DO UPDATE SET\<close> list of \<open>upsert\<close>: the stored row \<open>old\<close> takes the eleven listed
  columns from the proposed row (\<open>excluded\<close>) and \<open>now()\<close> as \<open>updated_at\<close>.
\<close>

definition on_conflict_do_update :: "timestamp \<Rightarrow> SleepDayModel \<Rightarrow> SleepDayModel \<Rightarrow> SleepDayModel" where
  "on_conflict_do_update db_now old excluded =
     old\<lparr> row_total_sleep_minutes := row_total_sleep_minutes excluded,
          row_deep_sleep_minutes := row_deep_sleep_minutes excluded,
          row_light_sleep_minutes := row_light_sleep_minutes excluded,
          row_rem_sleep_minutes := row_rem_sleep_minutes excluded,
          row_awake_minutes := row_awake_minutes excluded,
          row_sleep_efficiency := row_sleep_efficiency excluded,
          row_sleep_onset := row_sleep_onset excluded,
          row_sleep_offset := row_sleep_offset excluded,
          row_extra := row_extra excluded,
          row_raw_payload := row_raw_payload excluded,
          row_updated_at := db_now \<rparr>"

record upsert_result =
  res_id :: uuid
  was_inserted :: bool

text \<open>
  \<open>SleepDayRepository.upsert\<close>: \<open>INSERT ... ON CONFLICT (fingerprint) DO UPDATE ...
  RETURNING id, (xmax = 0)\<close>. The proposed row is checked against the CHECK constraints;
  a stored row with the same fingerprint is then updated in place (\<open>xmax\<close> is set, so
  \<open>was_inserted\<close> is false); otherwise the row is inserted (\<open>xmax = 0\<close>) unless the primary
  key or the unique constraint on (source, source_record_id) rejects it.
\<close>

definition upsert ::
  "timestamp \<Rightarrow> SleepDayModel list \<Rightarrow> SleepDayModel
     \<Rightarrow> IntegrityError + (upsert_result \<times> SleepDayModel list)" where
  "upsert db_now tbl record =
     (case check_constraints record of
        Some c \<Rightarrow> Inl (check_violation c)
      | None \<Rightarrow>
          (case find (\<lambda>r. row_fingerprint r = row_fingerprint record) tbl of
             Some existing \<Rightarrow>
               Inr (\<lparr> res_id = row_id existing, was_inserted = False \<rparr>,
                    map (\<lambda>r. if row_fingerprint r = row_fingerprint record
                              then on_conflict_do_update db_now r record else r) tbl)
           | None \<Rightarrow>
               if list_ex (\<lambda>r. row_id r = row_id record) tbl
                 then Inl (unique_violation ''sleep_days_pkey'' ''id'')
               else if list_ex (\<lambda>r. row_source r = row_source record
                                   \<and> row_source_record_id r = row_source_record_id record) tbl
                 then Inl (unique_violation ''uq_sleep_days_source_record''
                             ''source, source_record_id'')
               else Inr (\<lparr> res_id = row_id record, was_inserted = True \<rparr>, tbl @ [record])))"

text \<open>The uniqueness constraints of \<open>sleep_days\<close> as a predicate on the table.\<close>

definition table_ok :: "SleepDayModel list \<Rightarrow> bool" where
  "table_ok tbl \<longleftrightarrow>
     distinct (map row_id tbl) \<and> distinct (map row_fingerprint tbl)
     \<and> distinct (map (\<lambda>r. (row_source r, row_source_record_id r)) tbl)"

section \<open>Timeline reads (\<open>SleepDayRepository.get_timeline\<close>)\<close>

text \<open>
  The sort key of the timeline: effective date, then id. A cursor is the pair of the
  last row's effective date and id; its transport form (base64 of a JSON object) is not
  modelled, the function takes the decoded pair and returns the pair it would encode.
  An absent or empty cursor string is \<open>None\<close>.
\<close>

type_synonym cursor = "date \<times> uuid"

definition row_key :: "SleepDayModel \<Rightarrow> (nat \<times> nat \<times> nat) \<times> uuid" where
  "row_key r = (date_key (row_effective_date r), row_id r)"

definition after_cursor :: "bool \<Rightarrow> cursor \<Rightarrow> SleepDayModel \<Rightarrow> bool" where
  "after_cursor descending c r =
     (case c of (cursor_date, cursor_id) \<Rightarrow>
        if descending
        then date_key (row_effective_date r) < date_key cursor_date
             \<or> (row_effective_date r = cursor_date \<and> row_id r < cursor_id)
        else date_key (row_effective_date r) > date_key cursor_date
             \<or> (row_effective_date r = cursor_date \<and> row_id r > cursor_id))"

definition order_by :: "bool \<Rightarrow> SleepDayModel list \<Rightarrow> SleepDayModel list" where
  "order_by descending rows =
     (if descending then rev (sort_key row_key rows) else sort_key row_key rows)"

text \<open>
  The \<open>WHERE\<close> clauses and the \<open>ORDER BY\<close> of the query: the rows of the patient in
  \<open>[start, end)\<close> that lie after the cursor, in timeline order.
\<close>

definition timeline_query ::
  "SleepDayModel list \<Rightarrow> uuid \<Rightarrow> date option \<Rightarrow> date option \<Rightarrow> cursor option \<Rightarrow> bool
     \<Rightarrow> SleepDayModel list" where
  "timeline_query tbl patient_id start end cursor descending =
     (let q1 = filter (\<lambda>r. row_patient_id r = patient_id) tbl;
          q2 = (case start of None \<Rightarrow> q1
                | Some s \<Rightarrow> filter (\<lambda>r. date_key s \<le> date_key (row_effective_date r)) q1);
          q3 = (case end of None \<Rightarrow> q2
                | Some e \<Rightarrow> filter (\<lambda>r. date_key (row_effective_date r) < date_key e) q2);
          q4 = (case cursor of None \<Rightarrow> q3
                | Some c \<Rightarrow> filter (after_cursor descending c) q3)
      in order_by descending q4)"

text \<open>Python's \<open>rows[:n]\<close>, also for a negative \<open>n\<close>.\<close>

definition slice_to :: "int \<Rightarrow> 'a list \<Rightarrow> 'a list" where
  "slice_to n xs = (if 0 \<le> n then take (nat n) xs else take (length xs - nat (- n)) xs)"

datatype query_error = NegativeLimit

text \<open>
  \<open>get_timeline\<close>: \<open>LIMIT limit + 1\<close> (which the database rejects when negative), then
  the cut to \<open>limit\<close> rows and the cursor of the last row kept.
\<close>

definition get_timeline ::
  "SleepDayModel list \<Rightarrow> uuid \<Rightarrow> date option \<Rightarrow> date option \<Rightarrow> cursor option \<Rightarrow> int \<Rightarrow> bool
     \<Rightarrow> query_error + (SleepDayModel list \<times> cursor option)" where
  "get_timeline tbl patient_id start end cursor limit descending =
     (if limit + 1 < 0 then Inl NegativeLimit
      else
        (let fetched = take (nat (limit + 1))
                         (timeline_query tbl patient_id start end cursor descending);
             has_more = (int (length fetched) > limit);
             rows = (if has_more then slice_to limit fetched else fetched);
             next_cursor =
               (if has_more \<and> rows \<noteq> []
                then Some (row_effective_date (last rows), row_id (last rows)) else None)
         in Inr (rows, next_cursor)))"

text \<open>The key a cursor stands for, and the query before the cursor is applied.\<close>

definition cursor_key :: "cursor \<Rightarrow> (nat \<times> nat \<times> nat) \<times> uuid" where
  "cursor_key c = (date_key (fst c), snd c)"

definition timeline_base :: "SleepDayModel list \<Rightarrow> uuid \<Rightarrow> date option \<Rightarrow> date option \<Rightarrow> SleepDayModel list" where
  "timeline_base tbl patient_id start end =
     (let q1 = filter (\<lambda>r. row_patient_id r = patient_id) tbl;
          q2 = (case start of None \<Rightarrow> q1
                | Some s \<Rightarrow> filter (\<lambda>r. date_key s \<le> date_key (row_effective_date r)) q1)
      in (case end of None \<Rightarrow> q2
                | Some e \<Rightarrow> filter (\<lambda>r. date_key (row_effective_date r) < date_key e) q2))"

text \<open>
  The classification the pipeline derives from the flag returned by \<open>upsert\<close>.
\<close>

definition upsert_status :: "upsert_result \<Rightarrow> string" where
  "upsert_status db_result = (if was_inserted db_result then ''created'' else ''deduplicated'')"

text \<open>Three stored rows of one patient, used to run the queries on concrete tables.\<close>

definition timeline_row :: "uuid \<Rightarrow> string \<Rightarrow> date \<Rightarrow> SleepDayModel" where
  "timeline_row i sid d =
     \<lparr> row_id = i, row_patient_id = 7, row_source = ''oura'', row_source_record_id = sid,
       row_raw_payload = JObj [], row_fingerprint = sid, row_effective_date = d,
       row_ingested_at = 0, row_updated_at = 0,
       row_total_sleep_minutes = Some 480, row_deep_sleep_minutes = None,
       row_light_sleep_minutes = None, row_rem_sleep_minutes = None,
       row_awake_minutes = None, row_sleep_onset = None, row_sleep_offset = None,
       row_sleep_efficiency = None, row_extra = [] \<rparr>"

definition example_timeline :: "SleepDayModel list" where
  "example_timeline =
     [timeline_row 11 ''a'' (Date 2024 3 14), timeline_row 12 ''b'' (Date 2024 3 16),
      timeline_row 13 ''c'' (Date 2024 3 15)]"

section \<open>Python floats\<close>

text \<open>
  A float is modelled by the rational number it denotes, and every float operation
  rounds its exact result to the nearest binary64 value, ties to even: the result has
  a 53-bit significand at the binade of the exact value. The exponent range is not
  modelled (no overflow, no subnormal numbers); the values of this program lie far
  inside it. Comparisons of floats and of an int with a float are exact, as in Python.
\<close>

definition round_half_even :: "rat \<Rightarrow> int" where
  "round_half_even y =
     (let f = \<lfloor>y\<rfloor>; r = y - of_int f
      in if r < 1 / 2 then f else if 1 / 2 < r then f + 1
         else if even f then f else f + 1)"

text \<open>The binade of a non-zero \<open>x\<close>: the \<open>e\<close> with \<open>2 ^ e \<le> \<bar>x\<bar> < 2 ^ (e + 1)\<close>.\<close>

definition binade :: "rat \<Rightarrow> int" where
  "binade x =
     (let (a, b) = quotient_of \<bar>x\<bar>;
          e0 = bitlen a - bitlen b
      in if 2 powi e0 \<le> \<bar>x\<bar> then e0 else e0 - 1)"

definition nearest_double :: "rat \<Rightarrow> rat" where
  "nearest_double x =
     (if x = 0 then 0
      else (let ulp = 2 powi (binade x - 52)
            in of_int (round_half_even (x / ulp)) * ulp))"

definition float_of_int :: "int \<Rightarrow> rat" where
  "float_of_int n = nearest_double (of_int n)"

definition float_mul :: "rat \<Rightarrow> rat \<Rightarrow> rat" where
  "float_mul a b = nearest_double (a * b)"

definition float_div :: "rat \<Rightarrow> rat \<Rightarrow> rat" where
  "float_div a b = nearest_double (a / b)"

text \<open>
  \<open>round(x, 4)\<close> on a float: the exact value is rounded to four decimals, ties to even,
  and the decimal result is converted to the nearest float.
\<close>

definition py_round4 :: "rat \<Rightarrow> rat" where
  "py_round4 x = nearest_double (of_int (round_half_even (x * 10000)) / 10000)"

section \<open>Validation (\<open>sleep/domain/validation.py\<close>)\<close>

text \<open>
  The dictionary handed to \<open>validate_sleep_record\<close>, with the keys the nine rules read;
  a key that is absent or \<open>None\<close> is \<open>None\<close>. Minute fields are Python ints, the
  efficiency is a float, the source is a string.
\<close>

record sleep_record =
  rec_effective_date :: "date option"
  rec_total_sleep_minutes :: "int option"
  rec_deep_sleep_minutes :: "int option"
  rec_light_sleep_minutes :: "int option"
  rec_rem_sleep_minutes :: "int option"
  rec_awake_minutes :: "int option"
  rec_sleep_efficiency :: "rat option"
  rec_sleep_onset :: "datetime option"
  rec_sleep_offset :: "datetime option"
  rec_source :: "string option"

datatype err_value =
    VNone
  | VInt int
  | VFloat rat
  | VStr string
  | VDate date
  | VDateTime datetime
  | VStageSum int int
  | VWindow datetime datetime

record ValidationError =
  err_field :: string
  err_rule :: string
  err_reason :: string
  err_value :: err_value

definition mk_error :: "string \<Rightarrow> string \<Rightarrow> string \<Rightarrow> err_value \<Rightarrow> ValidationError" where
  "mk_error f r reason v = \<lparr> err_field = f, err_rule = r, err_reason = reason, err_value = v \<rparr>"

definition ALLOWED_SOURCES :: "string list" where
  "ALLOWED_SOURCES = [''oura'', ''withings'']"

definition MAX_DAILY_MINUTES :: int where
  "MAX_DAILY_MINUTES = 1440"

text \<open>The float literal \<open>1.05\<close>.\<close>

definition STAGE_SUM_TOLERANCE :: rat where
  "STAGE_SUM_TOLERANCE = nearest_double (105 / 100)"

text \<open>Rule 3, for one stage field.\<close>

definition rule_stage :: "string \<Rightarrow> int option \<Rightarrow> ValidationError list" where
  "rule_stage stage_field val =
     (case val of
        None \<Rightarrow> []
      | Some v \<Rightarrow> if v < 0 then [mk_error stage_field ''non_negative'' ''negative_sleep_stage'' (VInt v)]
                  else [])"

text \<open>\<open>record.get(f, 0) or 0\<close>\<close>

definition stage_or_zero :: "int option \<Rightarrow> int" where
  "stage_or_zero val = (case val of None \<Rightarrow> 0 | Some v \<Rightarrow> v)"

definition stage_sum :: "sleep_record \<Rightarrow> int" where
  "stage_sum record =
     stage_or_zero (rec_deep_sleep_minutes record) + stage_or_zero (rec_light_sleep_minutes record)
     + stage_or_zero (rec_rem_sleep_minutes record) + stage_or_zero (rec_awake_minutes record)"

text \<open>Rule 4: \<open>stage_sum > total * _STAGE_SUM_TOLERANCE\<close>, an int against a float.\<close>

definition rule_stage_sum :: "sleep_record \<Rightarrow> ValidationError list" where
  "rule_stage_sum record =
     (case rec_total_sleep_minutes record of
        None \<Rightarrow> []
      | Some total_minutes \<Rightarrow>
          if of_int (stage_sum record)
               > float_mul (float_of_int total_minutes) STAGE_SUM_TOLERANCE
          then [mk_error ''stage_sum'' ''consistency'' ''stage_sum_exceeds_total''
                  (VStageSum (stage_sum record) total_minutes)]
          else [])"

text \<open>Rule 7, for one timestamp field.\<close>

definition rule_timezone :: "string \<Rightarrow> datetime option \<Rightarrow> ValidationError list" where
  "rule_timezone ts_field ts =
     (case ts of
        None \<Rightarrow> []
      | Some t \<Rightarrow> if tzinfo t = None
                  then [mk_error ts_field ''timezone'' ''missing_timezone'' (VDateTime t)] else [])"

text \<open>
  \<open>validate_sleep_record\<close>; \<open>today\<close> is the value of \<open>date.today()\<close>. The violations are
  listed in the order of the nine rules.
\<close>

definition validate_sleep_record :: "date \<Rightarrow> sleep_record \<Rightarrow> ValidationError list" where
  "validate_sleep_record today record =
     (case rec_effective_date record of
        None \<Rightarrow> [mk_error ''effective_date'' ''required'' ''missing_effective_date'' VNone]
      | Some eff \<Rightarrow> [])
     @ (case rec_total_sleep_minutes record of
          None \<Rightarrow> []
        | Some total_minutes \<Rightarrow>
            if total_minutes < 0 \<or> total_minutes > MAX_DAILY_MINUTES
            then [mk_error ''total_sleep_minutes'' ''range'' ''sleep_duration_out_of_range''
                    (VInt total_minutes)]
            else [])
     @ rule_stage ''deep_sleep_minutes'' (rec_deep_sleep_minutes record)
     @ rule_stage ''light_sleep_minutes'' (rec_light_sleep_minutes record)
     @ rule_stage ''rem_sleep_minutes'' (rec_rem_sleep_minutes record)
     @ rule_stage ''awake_minutes'' (rec_awake_minutes record)
     @ rule_stage_sum record
     @ (case rec_effective_date record of
          None \<Rightarrow> []
        | Some eff \<Rightarrow>
            if date_key eff > date_key today
            then [mk_error ''effective_date'' ''no_future'' ''future_date'' (VDate eff)] else [])
     @ (case rec_sleep_efficiency record of
          None \<Rightarrow> []
        | Some efficiency \<Rightarrow>
            if efficiency < 0 \<or> efficiency > 1
            then [mk_error ''sleep_efficiency'' ''range'' ''efficiency_out_of_range''
                    (VFloat efficiency)]
            else [])
     @ rule_timezone ''sleep_onset'' (rec_sleep_onset record)
     @ rule_timezone ''sleep_offset'' (rec_sleep_offset record)
     @ (case rec_source record of
          None \<Rightarrow> []
        | Some source \<Rightarrow>
            if source \<noteq> [] \<and> source \<notin> set ALLOWED_SOURCES
            then [mk_error ''source'' ''known_source'' ''unknown_source'' (VStr source)] else [])
     @ (case (rec_sleep_onset record, rec_sleep_offset record) of
          (Some onset, Some offset) \<Rightarrow>
            if tzinfo onset \<noteq> None \<and> tzinfo offset \<noteq> None \<and> instant onset \<ge> instant offset
            then [mk_error ''sleep_onset'' ''ordering'' ''bedtime_order_invalid''
                    (VWindow onset offset)]
            else []
        | _ \<Rightarrow> [])"

text \<open>A record that passes all nine rules on 2024-03-20, used to run the validation.\<close>

definition valid_sleep_record :: sleep_record where
  "valid_sleep_record =
     \<lparr> rec_effective_date = Some (Date 2024 3 14), rec_total_sleep_minutes = Some 480,
       rec_deep_sleep_minutes = Some 90, rec_light_sleep_minutes = Some 210,
       rec_rem_sleep_minutes = Some 120, rec_awake_minutes = Some 60,
       rec_sleep_efficiency = Some (nearest_double (88 / 100)),
       rec_sleep_onset = Some (DateTime 1710457200000000 (Some 0)),
       rec_sleep_offset = Some (DateTime 1710486000000000 (Some 0)),
       rec_source = Some ''oura'' \<rparr>"

text \<open>
  Records at the edges of rule 4: a total of zero without stages, a negative total, and
  a total beyond the range in which floats hold every integer.
\<close>

definition zero_total_record :: sleep_record where
  "zero_total_record = valid_sleep_record\<lparr> rec_total_sleep_minutes := Some 0,
      rec_deep_sleep_minutes := None, rec_light_sleep_minutes := None,
      rec_rem_sleep_minutes := None, rec_awake_minutes := None \<rparr>"

definition negative_total_record :: sleep_record where
  "negative_total_record = valid_sleep_record\<lparr> rec_total_sleep_minutes := Some (- 100),
      rec_deep_sleep_minutes := Some (- 100), rec_light_sleep_minutes := None,
      rec_rem_sleep_minutes := None, rec_awake_minutes := None \<rparr>"

definition huge_total_record :: sleep_record where
  "huge_total_record = valid_sleep_record\<lparr> rec_total_sleep_minutes := Some 17967704436040820,
      rec_deep_sleep_minutes := Some 18866089657842861, rec_light_sleep_minutes := None,
      rec_rem_sleep_minutes := None, rec_awake_minutes := None \<rparr>"

section \<open>Fingerprints (\<open>SleepDay.compute_fingerprint\<close>)\<close>

text \<open>
  \<open>SleepSource\<close> is a string enum. A Python \<open>str\<close> is modelled by its UTF-8 encoding,
  so a \<open>string\<close> here is the byte sequence that \<open>raw.encode()\<close> hands to the hash.
\<close>

datatype SleepSource = OURA | WITHINGS

fun source_value :: "SleepSource \<Rightarrow> string" where
  "source_value OURA = ''oura''"
| "source_value WITHINGS = ''withings''"

text \<open>
  \<open>date.isoformat()\<close>: \<open>YYYY-MM-DD\<close>, zero padded. A \<open>date\<close> object has a year from 1
  to 9999 and a day that exists in its month.
\<close>

definition digit_char :: "nat \<Rightarrow> char" where
  "digit_char n = ''0123456789'' ! (n mod 10)"

definition two_digits :: "nat \<Rightarrow> string" where
  "two_digits n = [digit_char (n div 10), digit_char n]"

definition four_digits :: "nat \<Rightarrow> string" where
  "four_digits n = [digit_char (n div 1000), digit_char (n div 100), digit_char (n div 10),
                    digit_char n]"

definition isoformat :: "date \<Rightarrow> string" where
  "isoformat d = four_digits (year d) @ ''-'' @ two_digits (month d) @ ''-'' @ two_digits (day d)"

definition is_leap :: "nat \<Rightarrow> bool" where
  "is_leap y \<longleftrightarrow> y mod 4 = 0 \<and> (y mod 100 \<noteq> 0 \<or> y mod 400 = 0)"

definition days_in_month :: "nat \<Rightarrow> nat \<Rightarrow> nat" where
  "days_in_month y m =
     (if m = 2 then (if is_leap y then 29 else 28)
      else if m = 4 \<or> m = 6 \<or> m = 9 \<or> m = 11 then 30 else 31)"

definition valid_date :: "date \<Rightarrow> bool" where
  "valid_date d \<longleftrightarrow>
     1 \<le> year d \<and> year d \<le> 9999 \<and> 1 \<le> month d \<and> month d \<le> 12
     \<and> 1 \<le> day d \<and> day d \<le> days_in_month (year d) (month d)"

subsection \<open>SHA-256 (\<open>hashlib.sha256\<close>, FIPS 180-4)\<close>

text \<open>The round constants and the initial hash value, written in decimal.\<close>

type_synonym word32 = "32 word"

definition K256 :: "word32 list" where
  "K256 = [
      1116352408, 1899447441, 3049323471, 3921009573,
      961987163, 1508970993, 2453635748, 2870763221,
      3624381080, 310598401, 607225278, 1426881987,
      1925078388, 2162078206, 2614888103, 3248222580,
      3835390401, 4022224774, 264347078, 604807628,
      770255983, 1249150122, 1555081692, 1996064986,
      2554220882, 2821834349, 2952996808, 3210313671,
      3336571891, 3584528711, 113926993, 338241895,
      666307205, 773529912, 1294757372, 1396182291,
      1695183700, 1986661051, 2177026350, 2456956037,
      2730485921, 2820302411, 3259730800, 3345764771,
      3516065817, 3600352804, 4094571909, 275423344,
      430227734, 506948616, 659060556, 883997877,
      958139571, 1322822218, 1537002063, 1747873779,
      1955562222, 2024104815, 2227730452, 2361852424,
      2428436474, 2756734187, 3204031479, 3329325298]"

type_synonym sha_state =
  "word32 \<times> word32 \<times> word32 \<times> word32 \<times> word32 \<times> word32 \<times> word32 \<times> word32"

definition H256 :: sha_state where
  "H256 = (1779033703, 3144134277, 1013904242, 2773480762,
           1359893119, 2600822924, 528734635, 1541459225)"

definition Ch :: "word32 \<Rightarrow> word32 \<Rightarrow> word32 \<Rightarrow> word32" where
  "Ch x y z = (x AND y) XOR (NOT x AND z)"

definition Maj :: "word32 \<Rightarrow> word32 \<Rightarrow> word32 \<Rightarrow> word32" where
  "Maj x y z = (x AND y) XOR (x AND z) XOR (y AND z)"

definition Sigma0 :: "word32 \<Rightarrow> word32" where
  "Sigma0 x = word_rotr 2 x XOR word_rotr 13 x XOR word_rotr 22 x"

definition Sigma1 :: "word32 \<Rightarrow> word32" where
  "Sigma1 x = word_rotr 6 x XOR word_rotr 11 x XOR word_rotr 25 x"

definition sigma0 :: "word32 \<Rightarrow> word32" where
  "sigma0 x = word_rotr 7 x XOR word_rotr 18 x XOR drop_bit 3 x"

definition sigma1 :: "word32 \<Rightarrow> word32" where
  "sigma1 x = word_rotr 17 x XOR word_rotr 19 x XOR drop_bit 10 x"

text \<open>
  Padding: the byte \<open>0x80\<close>, zero bytes up to 56 modulo 64, and the bit length of the
  message as 8 bytes, big-endian. Bytes are integers from 0 to 255.
\<close>

definition be_bytes :: "nat \<Rightarrow> int \<Rightarrow> int list" where
  "be_bytes k n = map (\<lambda>i. (n div 256 ^ i) mod 256) (rev [0..<k])"

definition sha_pad :: "int list \<Rightarrow> int list" where
  "sha_pad m =
     m @ [128] @ replicate ((119 - length m mod 64) mod 64) 0
       @ be_bytes 8 (8 * int (length m))"

fun be_words :: "int list \<Rightarrow> word32 list" where
  "be_words (a # b # c # d # rest) =
     word_of_int (((a * 256 + b) * 256 + c) * 256 + d) # be_words rest"
| "be_words _ = []"

fun chunks :: "nat \<Rightarrow> nat \<Rightarrow> 'a list \<Rightarrow> 'a list list" where
  "chunks 0 n xs = []"
| "chunks (Suc k) n xs = take n xs # chunks k n (drop n xs)"

text \<open>The message schedule: sixteen words of the block, extended to sixty-four.\<close>

fun extend_schedule :: "nat \<Rightarrow> word32 list \<Rightarrow> word32 list" where
  "extend_schedule 0 w = w"
| "extend_schedule (Suc n) w =
     extend_schedule n
       (w @ [sigma1 (w ! (length w - 2)) + w ! (length w - 7)
             + sigma0 (w ! (length w - 15)) + w ! (length w - 16)])"

definition sha_round :: "sha_state \<Rightarrow> word32 \<times> word32 \<Rightarrow> sha_state" where
  "sha_round s kw =
     (case s of (a, b, c, d, e, f, g, h) \<Rightarrow>
        (case kw of (k, w) \<Rightarrow>
           (let t1 = h + Sigma1 e + Ch e f g + k + w;
                t2 = Sigma0 a + Maj a b c
            in (t1 + t2, a, b, c, d + t1, e, f, g))))"

definition sha_compress :: "sha_state \<Rightarrow> word32 list \<Rightarrow> sha_state" where
  "sha_compress s block =
     (case s of (a, b, c, d, e, f, g, h) \<Rightarrow>
        (case foldl sha_round s (zip K256 (extend_schedule 48 block)) of
           (a', b', c', d', e', f', g', h') \<Rightarrow>
             (a + a', b + b', c + c', d + d', e + e', f + f', g + g', h + h')))"

definition sha256 :: "int list \<Rightarrow> sha_state" where
  "sha256 m =
     (let p = sha_pad m
      in foldl sha_compress H256 (chunks (length p div 64) 16 (be_words p)))"

definition hex_char :: "int \<Rightarrow> char" where
  "hex_char n = ''0123456789abcdef'' ! nat (n mod 16)"

definition hex32 :: "word32 \<Rightarrow> string" where
  "hex32 w = map (\<lambda>i. hex_char (uint w div 16 ^ i)) (rev [0..<8])"

definition hexdigest :: "sha_state \<Rightarrow> string" where
  "hexdigest s =
     (case s of (a, b, c, d, e, f, g, h) \<Rightarrow>
        hex32 a @ hex32 b @ hex32 c @ hex32 d @ hex32 e @ hex32 f @ hex32 g @ hex32 h)"

definition sha256_hex :: "string \<Rightarrow> string" where
  "sha256_hex bytes = hexdigest (sha256 (map of_char bytes))"

text \<open>The string that is hashed, and \<open>compute_fingerprint\<close>.\<close>

definition fingerprint_raw :: "SleepSource \<Rightarrow> string \<Rightarrow> date \<Rightarrow> string" where
  "fingerprint_raw source source_record_id effective_date =
     source_value source @ '':'' @ source_record_id @ '':'' @ isoformat effective_date"

definition compute_fingerprint :: "SleepSource \<Rightarrow> string \<Rightarrow> date \<Rightarrow> string" where
  "compute_fingerprint source source_record_id effective_date =
     sha256_hex (fingerprint_raw source source_record_id effective_date)"

text \<open>The fingerprint as a function of the record id alone, for one source and date.\<close>

definition fingerprint_of_id :: "SleepSource \<Rightarrow> date \<Rightarrow> string \<Rightarrow> string" where
  "fingerprint_of_id source effective_date source_record_id =
     compute_fingerprint source source_record_id effective_date"

section \<open>The canonical model (\<open>sleep/domain/models.py\<close>)\<close>

text \<open>
  Exceptions are values. \<open>ValidationError\<close> is pydantic's, raised by the \<open>SleepDay\<close>
  constructor; its argument is the field that failed.
\<close>

datatype py_error =
    KeyError string
  | ValueError string
  | PydanticValidationError string
  | ZoneInfoNotFoundError string

record SleepDay =
  sd_id :: uuid
  sd_patient_id :: uuid
  sd_source :: SleepSource
  sd_source_record_id :: string
  sd_raw_payload :: jvalue
  sd_fingerprint :: string
  sd_effective_date :: date
  sd_ingested_at :: timestamp
  sd_updated_at :: timestamp
  sd_total_sleep_minutes :: "int option"
  sd_deep_sleep_minutes :: "int option"
  sd_light_sleep_minutes :: "int option"
  sd_rem_sleep_minutes :: "int option"
  sd_awake_minutes :: "int option"
  sd_sleep_onset :: "datetime option"
  sd_sleep_offset :: "datetime option"
  sd_sleep_efficiency :: "rat option"
  sd_extra :: "(string \<times> jvalue) list"

text \<open>
  The field validator \<open>normalize_efficiency\<close> (mode \<open>before\<close>): a value above 1.0 is
  taken as a percentage.
\<close>

definition normalize_efficiency :: "rat option \<Rightarrow> rat option" where
  "normalize_efficiency v =
     (case v of
        None \<Rightarrow> None
      | Some x \<Rightarrow> if x > 1 then Some (py_round4 (float_div x 100)) else Some x)"

text \<open>
  The constructor \<open>SleepDay(...)\<close>: the efficiency is normalised, then the constraints
  \<open>Field(ge=0)\<close> of the five minute fields and \<open>Field(ge=0.0, le=1.0)\<close> of the efficiency
  are checked, in the order of the fields.
\<close>

definition SleepDay_init :: "SleepDay \<Rightarrow> py_error + SleepDay" where
  "SleepDay_init d =
     (if \<not> nonneg_opt (sd_total_sleep_minutes d)
        then Inl (PydanticValidationError ''total_sleep_minutes'')
      else if \<not> nonneg_opt (sd_deep_sleep_minutes d)
        then Inl (PydanticValidationError ''deep_sleep_minutes'')
      else if \<not> nonneg_opt (sd_light_sleep_minutes d)
        then Inl (PydanticValidationError ''light_sleep_minutes'')
      else if \<not> nonneg_opt (sd_rem_sleep_minutes d)
        then Inl (PydanticValidationError ''rem_sleep_minutes'')
      else if \<not> nonneg_opt (sd_awake_minutes d)
        then Inl (PydanticValidationError ''awake_minutes'')
      else (case normalize_efficiency (sd_sleep_efficiency d) of
              None \<Rightarrow> Inr (d\<lparr>sd_sleep_efficiency := None\<rparr>)
            | Some e \<Rightarrow>
                if 0 \<le> e \<and> e \<le> 1 then Inr (d\<lparr>sd_sleep_efficiency := Some e\<rparr>)
                else Inl (PydanticValidationError ''sleep_efficiency'')))"

text \<open>\<open>sleep_day.model_dump()\<close>, restricted to the keys the validation reads.\<close>

definition model_dump :: "SleepDay \<Rightarrow> sleep_record" where
  "model_dump d =
     \<lparr> rec_effective_date = Some (sd_effective_date d),
       rec_total_sleep_minutes = sd_total_sleep_minutes d,
       rec_deep_sleep_minutes = sd_deep_sleep_minutes d,
       rec_light_sleep_minutes = sd_light_sleep_minutes d,
       rec_rem_sleep_minutes = sd_rem_sleep_minutes d,
       rec_awake_minutes = sd_awake_minutes d,
       rec_sleep_efficiency = sd_sleep_efficiency d,
       rec_sleep_onset = sd_sleep_onset d,
       rec_sleep_offset = sd_sleep_offset d,
       rec_source = Some (source_value (sd_source d)) \<rparr>"

section \<open>Vendor adapters (\<open>sleep/adapters\<close>)\<close>

text \<open>
  The library functions the mappers call are parameters of the model:
  \<open>date.fromisoformat\<close>, \<open>datetime.fromisoformat\<close>, \<open>ZoneInfo\<close> (a zone is the function from
  an epoch second to the offset from UTC in force then) and \<open>json.loads\<close> (\<open>None\<close> when it
  raises \<open>JSONDecodeError\<close>).
\<close>

record pylib =
  date_fromisoformat :: "string \<Rightarrow> py_error + date"
  datetime_fromisoformat :: "string \<Rightarrow> py_error + datetime"
  ZoneInfo :: "string \<Rightarrow> py_error + (int \<Rightarrow> int)"
  json_loads :: "string \<Rightarrow> jvalue option"

text \<open>
  A vendor entry is a JSON object. The model keeps the document as received (it is what
  is archived as \<open>raw_payload\<close>) together with its decoded members: a member the mapper
  passes to \<open>_sec_to_min\<close> or \<open>_pct_to_ratio\<close> is an \<open>int option\<close>, as those helpers declare,
  and \<open>None\<close> stands for a member that is absent or \<open>null\<close>, which is what \<open>entry.get\<close>
  returns for both. The members that are copied unchanged into \<open>extra\<close> are kept as an
  association list of JSON values.
\<close>

record oura_entry =
  oe_json :: jvalue
  oe_id :: "string option"
  oe_day :: "string option"
  oe_type :: "string option"
  oe_period :: "int option"
  oe_total_sleep_duration :: "int option"
  oe_deep_sleep_duration :: "int option"
  oe_light_sleep_duration :: "int option"
  oe_rem_sleep_duration :: "int option"
  oe_awake_time :: "int option"
  oe_efficiency :: "int option"
  oe_bedtime_start :: "string option"
  oe_bedtime_end :: "string option"
  oe_time_in_bed :: "int option"
  oe_latency :: "int option"
  oe_other :: "(string \<times> jvalue) list"

text \<open>\<open>_sec_to_min\<close> (both mappers), \<open>_pct_to_ratio\<close> and \<open>_parse_iso\<close>.\<close>

definition sec_to_min :: "int option \<Rightarrow> int option" where
  "sec_to_min seconds = (case seconds of None \<Rightarrow> None | Some s \<Rightarrow> Some (s div 60))"

definition pct_to_ratio :: "int option \<Rightarrow> rat option" where
  "pct_to_ratio pct =
     (case pct of None \<Rightarrow> None
      | Some p \<Rightarrow> Some (py_round4 (float_div (float_of_int p) 100)))"

definition parse_iso :: "pylib \<Rightarrow> string option \<Rightarrow> py_error + datetime option" where
  "parse_iso lib iso_str =
     (case iso_str of
        None \<Rightarrow> Inr None
      | Some s \<Rightarrow>
          if s = [] then Inr None
          else (case datetime_fromisoformat lib s of Inl e \<Rightarrow> Inl e | Inr t \<Rightarrow> Inr (Some t)))"

text \<open>
  The dictionary comprehension that builds \<open>extra\<close>: the pairs whose value is not
  \<open>None\<close>, in order. \<open>get_other\<close> is \<open>entry.get(k)\<close> on the members kept as JSON.
\<close>

definition get_other :: "(string \<times> jvalue) list \<Rightarrow> string \<Rightarrow> jvalue option" where
  "get_other members k =
     (case map_of members k of None \<Rightarrow> None | Some JNull \<Rightarrow> None | Some v \<Rightarrow> Some v)"

definition drop_none :: "(string \<times> jvalue option) list \<Rightarrow> (string \<times> jvalue) list" where
  "drop_none kvs = List.map_filter (\<lambda>(k, v). map_option (\<lambda>x. (k, x)) v) kvs"

definition oura_extra :: "oura_entry \<Rightarrow> (string \<times> jvalue) list" where
  "oura_extra entry =
     drop_none
       [(''time_in_bed_minutes'', map_option JInt (sec_to_min (oe_time_in_bed entry))),
        (''latency_minutes'', map_option JInt (sec_to_min (oe_latency entry))),
        (''avg_hr_bpm'', get_other (oe_other entry) ''average_heart_rate''),
        (''avg_hrv_ms'', get_other (oe_other entry) ''average_hrv''),
        (''avg_breath_rate'', get_other (oe_other entry) ''average_breath''),
        (''lowest_hr_bpm'', get_other (oe_other entry) ''lowest_heart_rate''),
        (''restless_periods'', get_other (oe_other entry) ''restless_periods''),
        (''sleep_type'', map_option JStr (oe_type entry)),
        (''sleep_phase_5_min'', get_other (oe_other entry) ''sleep_phase_5_min''),
        (''movement_30_sec'', get_other (oe_other entry) ''movement_30_sec''),
        (''readiness'', get_other (oe_other entry) ''readiness''),
        (''readiness_score_delta'', get_other (oe_other entry) ''readiness_score_delta''),
        (''sleep_score_delta'', get_other (oe_other entry) ''sleep_score_delta''),
        (''sleep_algorithm_version'', get_other (oe_other entry) ''sleep_algorithm_version''),
        (''sleep_analysis_reason'', get_other (oe_other entry) ''sleep_analysis_reason'')]"

text \<open>
  The body of the loop of \<open>OuraMapper.parse\<close> for one entry: \<open>Inr None\<close> when the entry
  is skipped, \<open>Inl\<close> when a statement raises. \<open>now\<close> is \<open>datetime.now(UTC)\<close> and \<open>new_id\<close>
  the value of \<open>uuid4()\<close> for the record.
\<close>

definition oura_map_entry ::
  "pylib \<Rightarrow> timestamp \<Rightarrow> uuid \<Rightarrow> uuid \<Rightarrow> oura_entry \<Rightarrow> py_error + SleepDay option" where
  "oura_map_entry lib now new_id patient_id entry =
     (if oe_type entry \<noteq> Some ''long_sleep'' then Inr None
      else if (case oe_period entry of None \<Rightarrow> 0 | Some p \<Rightarrow> p) \<noteq> 0 then Inr None
      else
        (case oe_day entry of
           None \<Rightarrow> Inl (KeyError ''day'')
         | Some day_str \<Rightarrow>
        (case date_fromisoformat lib day_str of
           Inl e \<Rightarrow> Inl e
         | Inr effective \<Rightarrow>
        (case oe_id entry of
           None \<Rightarrow> Inl (KeyError ''id'')
         | Some source_id \<Rightarrow>
        (case parse_iso lib (oe_bedtime_start entry) of
           Inl e \<Rightarrow> Inl e
         | Inr onset \<Rightarrow>
        (case parse_iso lib (oe_bedtime_end entry) of
           Inl e \<Rightarrow> Inl e
         | Inr offset \<Rightarrow>
        (case SleepDay_init
                \<lparr> sd_id = new_id, sd_patient_id = patient_id, sd_source = OURA,
                  sd_source_record_id = source_id, sd_raw_payload = oe_json entry,
                  sd_fingerprint = compute_fingerprint OURA source_id effective,
                  sd_effective_date = effective, sd_ingested_at = now, sd_updated_at = now,
                  sd_total_sleep_minutes = sec_to_min (oe_total_sleep_duration entry),
                  sd_deep_sleep_minutes = sec_to_min (oe_deep_sleep_duration entry),
                  sd_light_sleep_minutes = sec_to_min (oe_light_sleep_duration entry),
                  sd_rem_sleep_minutes = sec_to_min (oe_rem_sleep_duration entry),
                  sd_awake_minutes = sec_to_min (oe_awake_time entry),
                  sd_sleep_onset = onset, sd_sleep_offset = offset,
                  sd_sleep_efficiency = pct_to_ratio (oe_efficiency entry),
                  sd_extra = oura_extra entry \<rparr> of
           Inl e \<Rightarrow> Inl e
         | Inr sleep_day \<Rightarrow> Inr (Some sleep_day))))))))"

text \<open>
  \<open>OuraMapper.parse\<close> over the entries of \<open>raw_response.get("data", [])\<close>. The ids of the
  records are \<open>next_id\<close>, \<open>next_id + 1\<close>, ...: \<open>uuid4()\<close> is modelled as a supply of fresh
  ids.
\<close>

fun oura_parse_entries ::
  "pylib \<Rightarrow> timestamp \<Rightarrow> uuid \<Rightarrow> uuid \<Rightarrow> oura_entry list \<Rightarrow> py_error + SleepDay list" where
  "oura_parse_entries lib now next_id patient_id [] = Inr []"
| "oura_parse_entries lib now next_id patient_id (entry # entries) =
     (case oura_map_entry lib now next_id patient_id entry of
        Inl e \<Rightarrow> Inl e
      | Inr None \<Rightarrow> oura_parse_entries lib now next_id patient_id entries
      | Inr (Some sleep_day) \<Rightarrow>
          (case oura_parse_entries lib now (next_id + 1) patient_id entries of
             Inl e \<Rightarrow> Inl e
           | Inr results \<Rightarrow> Inr (sleep_day # results)))"

text \<open>
  A Withings series entry. The measurements are the members of its \<open>data\<close> object;
  \<open>entry.get("data", entry)\<close> reads them from the entry itself when there is no such
  object, so the entry carries a decoded view of its own members of those names too.
  The member \<open>id\<close> is an integer or a string.
\<close>

record withings_data =
  wd_total_sleep_time :: "int option"
  wd_deepsleepduration :: "int option"
  wd_lightsleepduration :: "int option"
  wd_remsleepduration :: "int option"
  wd_wakeupduration :: "int option"
  wd_sleep_efficiency :: "rat option"
  wd_sleep_latency :: "int option"
  wd_durationtosleep :: "int option"
  wd_wakeup_latency :: "int option"
  wd_durationtowakeup :: "int option"
  wd_total_timeinbed :: "int option"
  wd_waso :: "int option"
  wd_asleepduration :: "int option"
  wd_night_events :: "jvalue option"
  wd_other :: "(string \<times> jvalue) list"

datatype id_value = IdInt int | IdStr string

record withings_entry =
  we_json :: jvalue
  we_date :: "string option"
  we_timezone :: "string option"
  we_id :: "id_value option"
  we_startdate :: "int option"
  we_enddate :: "int option"
  we_hash_deviceid :: "jvalue option"
  we_data :: "withings_data option"
  we_members :: withings_data

text \<open>\<open>str\<close> of an int, and of the \<open>id\<close> member.\<close>

function str_digits :: "int \<Rightarrow> string" where
  "str_digits n =
     (if n < 10 then [digit_char (nat n)]
      else str_digits (n div 10) @ [digit_char (nat (n mod 10))])"
  by pat_completeness auto
termination
  by (relation "measure nat") auto

definition str_int :: "int \<Rightarrow> string" where
  "str_int n = (if n < 0 then ''-'' @ str_digits (- n) else str_digits n)"

definition str_id :: "id_value \<Rightarrow> string" where
  "str_id v = (case v of IdInt n \<Rightarrow> str_int n | IdStr s \<Rightarrow> s)"

text \<open>
  \<open>_unix_to_dt\<close>: the instant of an epoch second, aware in the given zone or in UTC.
\<close>

definition unix_to_dt :: "int option \<Rightarrow> (int \<Rightarrow> int) option \<Rightarrow> datetime option" where
  "unix_to_dt ts tz =
     (case ts of
        None \<Rightarrow> None
      | Some t \<Rightarrow>
          (case tz of
             Some zone \<Rightarrow> Some (DateTime (t * 1000000) (Some (zone t)))
           | None \<Rightarrow> Some (DateTime (t * 1000000) (Some 0))))"

text \<open>
  Python's \<open>a or b\<close> on two optional ints: \<open>a\<close> when it is truthy (neither \<open>None\<close> nor
  0), else \<open>b\<close>.
\<close>

definition py_or :: "int option \<Rightarrow> int option \<Rightarrow> int option" where
  "py_or a b = (case a of None \<Rightarrow> b | Some v \<Rightarrow> if v \<noteq> 0 then Some v else b)"

text \<open>The two aliased measurements, as \<open>WithingsMapper.parse\<close> resolves them.\<close>

definition latency_sec :: "withings_data \<Rightarrow> int option" where
  "latency_sec data = py_or (wd_sleep_latency data) (wd_durationtosleep data)"

definition wakeup_latency_sec :: "withings_data \<Rightarrow> int option" where
  "wakeup_latency_sec data = py_or (wd_wakeup_latency data) (wd_durationtowakeup data)"

text \<open>\<open>night_events\<close>: a string is decoded with \<open>json.loads\<close>, unless that raises.\<close>

definition night_events_value :: "pylib \<Rightarrow> jvalue option \<Rightarrow> jvalue option" where
  "night_events_value lib raw =
     (case raw of
        Some (JStr text) \<Rightarrow>
          (case json_loads lib text of None \<Rightarrow> Some (JStr text) | Some JNull \<Rightarrow> None
           | Some v \<Rightarrow> Some v)
      | other \<Rightarrow> other)"

definition withings_extra ::
  "pylib \<Rightarrow> withings_entry \<Rightarrow> withings_data \<Rightarrow> (string \<times> jvalue) list" where
  "withings_extra lib entry data =
     drop_none
       [(''sleep_score'', get_other (wd_other data) ''sleep_score''),
        (''avg_hr_bpm'', get_other (wd_other data) ''hr_average''),
        (''min_hr_bpm'', get_other (wd_other data) ''hr_min''),
        (''max_hr_bpm'', get_other (wd_other data) ''hr_max''),
        (''avg_rr'', get_other (wd_other data) ''rr_average''),
        (''min_rr'', get_other (wd_other data) ''rr_min''),
        (''max_rr'', get_other (wd_other data) ''rr_max''),
        (''breathing_disturbances'',
           get_other (wd_other data) ''breathing_disturbances_intensity''),
        (''snoring_seconds'', get_other (wd_other data) ''snoring''),
        (''snoring_episode_count'', get_other (wd_other data) ''snoringepisodecount''),
        (''wakeup_count'', get_other (wd_other data) ''wakeupcount''),
        (''out_of_bed_count'', get_other (wd_other data) ''out_of_bed_count''),
        (''latency_minutes'', map_option JInt (sec_to_min (latency_sec data))),
        (''wakeup_latency_minutes'', map_option JInt (sec_to_min (wakeup_latency_sec data))),
        (''time_in_bed_minutes'', map_option JInt (sec_to_min (wd_total_timeinbed data))),
        (''waso_minutes'', map_option JInt (sec_to_min (wd_waso data))),
        (''rem_episode_count'', get_other (wd_other data) ''nb_rem_episodes''),
        (''asleep_duration_minutes'', map_option JInt (sec_to_min (wd_asleepduration data))),
        (''hash_deviceid'', we_hash_deviceid entry),
        (''night_events'', night_events_value lib (wd_night_events data)),
        (''timezone'', map_option JStr (we_timezone entry))]"

text \<open>The body of the loop of \<open>WithingsMapper.parse\<close> for one series entry.\<close>

definition withings_map_entry ::
  "pylib \<Rightarrow> timestamp \<Rightarrow> uuid \<Rightarrow> uuid \<Rightarrow> withings_entry \<Rightarrow> py_error + SleepDay" where
  "withings_map_entry lib now new_id patient_id entry =
     (case we_date entry of
        None \<Rightarrow> Inl (KeyError ''date'')
      | Some date_str \<Rightarrow>
     (case date_fromisoformat lib date_str of
        Inl e \<Rightarrow> Inl e
      | Inr effective \<Rightarrow>
     (let data = (case we_data entry of Some d \<Rightarrow> d | None \<Rightarrow> we_members entry)
      in
     (case (case we_timezone entry of
              None \<Rightarrow> Inr None
            | Some tz_name \<Rightarrow>
                if tz_name = [] then Inr None
                else (case ZoneInfo lib tz_name of Inl e \<Rightarrow> Inl e | Inr z \<Rightarrow> Inr (Some z))) of
        Inl e \<Rightarrow> Inl e
      | Inr tz \<Rightarrow>
     (let source_id =
            (case we_id entry of
               Some v \<Rightarrow> str_id v
             | None \<Rightarrow>
                 (case we_startdate entry of None \<Rightarrow> [] | Some t \<Rightarrow> str_int t) @ ''_''
                 @ (case we_enddate entry of None \<Rightarrow> [] | Some t \<Rightarrow> str_int t))
      in SleepDay_init
           \<lparr> sd_id = new_id, sd_patient_id = patient_id, sd_source = WITHINGS,
             sd_source_record_id = source_id, sd_raw_payload = we_json entry,
             sd_fingerprint = compute_fingerprint WITHINGS source_id effective,
             sd_effective_date = effective, sd_ingested_at = now, sd_updated_at = now,
             sd_total_sleep_minutes = sec_to_min (wd_total_sleep_time data),
             sd_deep_sleep_minutes = sec_to_min (wd_deepsleepduration data),
             sd_light_sleep_minutes = sec_to_min (wd_lightsleepduration data),
             sd_rem_sleep_minutes = sec_to_min (wd_remsleepduration data),
             sd_awake_minutes = sec_to_min (wd_wakeupduration data),
             sd_sleep_onset = unix_to_dt (we_startdate entry) tz,
             sd_sleep_offset = unix_to_dt (we_enddate entry) tz,
             sd_sleep_efficiency = wd_sleep_efficiency data,
             sd_extra = withings_extra lib entry data \<rparr>)))))"

fun withings_parse_entries ::
  "pylib \<Rightarrow> timestamp \<Rightarrow> uuid \<Rightarrow> uuid \<Rightarrow> withings_entry list \<Rightarrow> py_error + SleepDay list" where
  "withings_parse_entries lib now next_id patient_id [] = Inr []"
| "withings_parse_entries lib now next_id patient_id (entry # entries) =
     (case withings_map_entry lib now next_id patient_id entry of
        Inl e \<Rightarrow> Inl e
      | Inr sleep_day \<Rightarrow>
          (case withings_parse_entries lib now (next_id + 1) patient_id entries of
             Inl e \<Rightarrow> Inl e
           | Inr results \<Rightarrow> Inr (sleep_day # results)))"

text \<open>
  The raw payload of an ingest call: the document as received, its \<open>data\<close> array (read by
  the Oura mapper), its \<open>body\<close> with the \<open>series\<close> array, and a \<open>series\<close> array of its own
  (read by the Withings mapper when there is no \<open>body\<close>).
\<close>

record raw_response =
  rr_json :: jvalue
  rr_data :: "oura_entry list option"
  rr_body :: "withings_entry list option option"
  rr_series :: "withings_entry list option"

definition OuraMapper_parse ::
  "pylib \<Rightarrow> timestamp \<Rightarrow> uuid \<Rightarrow> raw_response \<Rightarrow> uuid \<Rightarrow> py_error + SleepDay list" where
  "OuraMapper_parse lib now next_id raw patient_id =
     oura_parse_entries lib now next_id patient_id
       (case rr_data raw of None \<Rightarrow> [] | Some records \<Rightarrow> records)"

definition WithingsMapper_parse ::
  "pylib \<Rightarrow> timestamp \<Rightarrow> uuid \<Rightarrow> raw_response \<Rightarrow> uuid \<Rightarrow> py_error + SleepDay list" where
  "WithingsMapper_parse lib now next_id raw patient_id =
     withings_parse_entries lib now next_id patient_id
       (case (case rr_body raw of Some body \<Rightarrow> body | None \<Rightarrow> rr_series raw) of
          None \<Rightarrow> [] | Some series \<Rightarrow> series)"

text \<open>
  \<open>get_adapter\<close>: in both adapter modes the adapter delegates \<open>parse\<close> to the mapper of
  the source; an unknown source raises \<open>ValueError\<close>.
\<close>

definition get_adapter ::
  "string \<Rightarrow> py_error
      + (pylib \<Rightarrow> timestamp \<Rightarrow> uuid \<Rightarrow> raw_response \<Rightarrow> uuid \<Rightarrow> py_error + SleepDay list)" where
  "get_adapter source =
     (if source = ''oura'' then Inr OuraMapper_parse
      else if source = ''withings'' then Inr WithingsMapper_parse
      else Inl (ValueError ''Unsupported source''))"

text \<open>
  An instance of the library for running the mappers on concrete entries: dates in the
  form \<open>YYYY-MM-DD\<close>; no timestamp string and no zone is accepted, and \<open>json.loads\<close>
  always raises, so it serves entries that carry none of these.
\<close>

definition digit_value :: "char \<Rightarrow> nat option" where
  "digit_value c =
     (if c \<in> set ''0123456789'' then Some (of_char c - of_char CHR ''0'') else None)"

definition number_of_digits :: "string \<Rightarrow> nat option" where
  "number_of_digits cs =
     (if cs \<noteq> [] \<and> list_all (\<lambda>c. digit_value c \<noteq> None) cs
      then Some (foldl (\<lambda>n c. 10 * n + the (digit_value c)) 0 cs) else None)"

definition parse_date :: "string \<Rightarrow> py_error + date" where
  "parse_date s =
     (if length s = 10 \<and> s ! 4 = CHR ''-'' \<and> s ! 7 = CHR ''-''
      then (case (number_of_digits (take 4 s), number_of_digits (take 2 (drop 5 s)),
                  number_of_digits (drop 8 s)) of
              (Some y, Some m, Some d) \<Rightarrow>
                if valid_date (Date y m d) then Inr (Date y m d)
                else Inl (ValueError ''day is out of range'')
            | _ \<Rightarrow> Inl (ValueError ''Invalid isoformat string''))
      else Inl (ValueError ''Invalid isoformat string''))"

definition dates_only_lib :: pylib where
  "dates_only_lib =
     \<lparr> date_fromisoformat = parse_date,
       datetime_fromisoformat = (\<lambda>s. Inl (ValueError ''Invalid isoformat string'')),
       ZoneInfo = (\<lambda>s. Inl (ZoneInfoNotFoundError s)),
       json_loads = (\<lambda>s. None) \<rparr>"

text \<open>The entry of the conversion scenario, and a Withings entry with both latency names.\<close>

definition scenario_oura_entry :: oura_entry where
  "scenario_oura_entry =
     \<lparr> oe_json = JObj [(''id'', JStr ''x'')], oe_id = Some ''x'', oe_day = Some ''2024-03-14'',
       oe_type = Some ''long_sleep'', oe_period = Some 0,
       oe_total_sleep_duration = Some 26010, oe_deep_sleep_duration = Some 5160,
       oe_light_sleep_duration = Some 15600, oe_rem_sleep_duration = Some 5400,
       oe_awake_time = Some 2340, oe_efficiency = Some 88,
       oe_bedtime_start = None, oe_bedtime_end = None,
       oe_time_in_bed = None, oe_latency = None, oe_other = [] \<rparr>"

definition empty_withings_data :: withings_data where
  "empty_withings_data =
     \<lparr> wd_total_sleep_time = None, wd_deepsleepduration = None, wd_lightsleepduration = None,
       wd_remsleepduration = None, wd_wakeupduration = None, wd_sleep_efficiency = None,
       wd_sleep_latency = None, wd_durationtosleep = None, wd_wakeup_latency = None,
       wd_durationtowakeup = None, wd_total_timeinbed = None, wd_waso = None,
       wd_asleepduration = None, wd_night_events = None, wd_other = [] \<rparr>"

definition zero_latency_entry :: withings_entry where
  "zero_latency_entry =
     \<lparr> we_json = JObj [], we_date = Some ''2024-03-14'', we_timezone = None,
       we_id = Some (IdInt 987654321), we_startdate = Some 1710468840,
       we_enddate = Some 1710496950, we_hash_deviceid = None,
       we_data = Some (empty_withings_data\<lparr> wd_total_sleep_time := Some 25440,
                         wd_sleep_latency := Some 0, wd_durationtosleep := Some 540,
                         wd_wakeup_latency := Some 0, wd_durationtowakeup := Some 360 \<rparr>),
       we_members = empty_withings_data \<rparr>"

section \<open>The ingestion pipeline (\<open>sleep/pipeline.py\<close>)\<close>

text \<open>
  \<open>IngestRecordResult.sleep_day_id\<close> is the string form of the row id, or the empty
  string for a quarantined record; the model writes \<open>Some id\<close> and \<open>None\<close>.
\<close>

record IngestRecordResult =
  sleep_day_id :: "uuid option"
  status :: string

record IngestResult =
  results :: "IngestRecordResult list"
  records_processed :: nat
  records_inserted :: nat
  records_updated :: nat
  records_quarantined :: nat
  batch_id :: uuid

datatype quarantine_details =
    ParseFailure
  | Violations "ValidationError list"
  | ReusedRecordId string date string

record QuarantineRecordModel =
  q_id :: uuid
  q_patient_id :: uuid
  q_source :: string
  q_pipeline_stage :: string
  q_quarantine_reason :: string
  q_quarantine_details :: quarantine_details
  q_raw_payload :: jvalue
  q_fingerprint :: "string option"
  q_effective_date :: "date option"
  q_raw_response_id :: "uuid option"

record RawVendorResponseModel =
  raw_id :: uuid
  raw_patient_id :: uuid
  raw_source :: string
  raw_endpoint :: string
  raw_response_body :: jvalue
  raw_http_status :: int
  raw_batch_id :: uuid

text \<open>
  The database, and the state of one \<open>AsyncSession\<close>: what is committed, what the open
  transaction sees, and the supply of fresh ids for \<open>uuid4()\<close>. Other sessions are not
  modelled.
\<close>

record db =
  sleep_days :: "SleepDayModel list"
  quarantine_records :: "QuarantineRecordModel list"
  raw_vendor_responses :: "RawVendorResponseModel list"

record session =
  committed :: db
  pending :: db
  next_uuid :: uuid

definition commit :: "session \<Rightarrow> session" where
  "commit s = s\<lparr>committed := pending s\<rparr>"

definition rollback :: "session \<Rightarrow> session" where
  "rollback s = s\<lparr>pending := committed s\<rparr>"

text \<open>
  What one ingest call reads from its surroundings: the library, \<open>datetime.now(UTC)\<close>,
  \<open>date.today()\<close> and the database's \<open>now()\<close>, each taken as constant during the call.
\<close>

record env =
  env_lib :: pylib
  env_now :: timestamp
  env_today :: date
  env_db_now :: timestamp

text \<open>
  \<open>store_raw_response\<close> and \<open>quarantine\<close>: appends within the open transaction; the row id
  is the column default \<open>uuid4\<close>. The argument carries the other columns.
\<close>

definition store_raw_response :: "session \<Rightarrow> RawVendorResponseModel \<Rightarrow> uuid \<times> session" where
  "store_raw_response s record =
     (next_uuid s,
      s\<lparr> pending := (pending s)\<lparr> raw_vendor_responses :=
              raw_vendor_responses (pending s) @ [record\<lparr>raw_id := next_uuid s\<rparr>] \<rparr>,
         next_uuid := next_uuid s + 1 \<rparr>)"

definition quarantine :: "session \<Rightarrow> QuarantineRecordModel \<Rightarrow> uuid \<times> session" where
  "quarantine s record =
     (next_uuid s,
      s\<lparr> pending := (pending s)\<lparr> quarantine_records :=
              quarantine_records (pending s) @ [record\<lparr>q_id := next_uuid s\<rparr>] \<rparr>,
         next_uuid := next_uuid s + 1 \<rparr>)"

text \<open>The dictionary \<open>upsert_dict\<close> built from a validated record.\<close>

definition upsert_dict :: "SleepDay \<Rightarrow> SleepDayModel" where
  "upsert_dict sleep_day =
     \<lparr> row_id = sd_id sleep_day, row_patient_id = sd_patient_id sleep_day,
       row_source = source_value (sd_source sleep_day),
       row_source_record_id = sd_source_record_id sleep_day,
       row_raw_payload = sd_raw_payload sleep_day, row_fingerprint = sd_fingerprint sleep_day,
       row_effective_date = sd_effective_date sleep_day,
       row_ingested_at = sd_ingested_at sleep_day, row_updated_at = sd_updated_at sleep_day,
       row_total_sleep_minutes = sd_total_sleep_minutes sleep_day,
       row_deep_sleep_minutes = sd_deep_sleep_minutes sleep_day,
       row_light_sleep_minutes = sd_light_sleep_minutes sleep_day,
       row_rem_sleep_minutes = sd_rem_sleep_minutes sleep_day,
       row_awake_minutes = sd_awake_minutes sleep_day,
       row_sleep_onset = sd_sleep_onset sleep_day, row_sleep_offset = sd_sleep_offset sleep_day,
       row_sleep_efficiency = sd_sleep_efficiency sleep_day, row_extra = sd_extra sleep_day \<rparr>"

text \<open>
  The test the pipeline applies to an \<open>IntegrityError\<close>:
  \<open>"uq_sleep_days_source_record" in constraint or "source_record_id" in str(exc)\<close>.
\<close>

definition names_source_record :: "IntegrityError \<Rightarrow> bool" where
  "names_source_record exc \<longleftrightarrow>
     sublist ''uq_sleep_days_source_record'' (constraint_name exc)
     \<or> sublist ''source_record_id'' (message exc)"

definition quarantined_result :: IngestRecordResult where
  "quarantined_result = \<lparr> sleep_day_id = None, status = ''quarantined'' \<rparr>"

text \<open>
  The body of the loop over the mapped records, for one record: validation and
  quarantine, or the upsert; on an \<open>IntegrityError\<close> the session is rolled back, and the
  record is quarantined if the error names the source record, else the error is raised
  again.
\<close>

definition ingest_record ::
  "env \<Rightarrow> string \<Rightarrow> uuid \<Rightarrow> uuid \<Rightarrow> SleepDay \<Rightarrow> IngestResult \<times> session
     \<Rightarrow> IntegrityError + (IngestResult \<times> session)" where
  "ingest_record e source patient_id raw_response_id sleep_day st =
     (case st of (result, s) \<Rightarrow>
       (let errors = validate_sleep_record (env_today e) (model_dump sleep_day)
        in if errors \<noteq> [] then
             (let (qid, s') = quarantine s
                    \<lparr> q_id = 0, q_patient_id = patient_id, q_source = source,
                      q_pipeline_stage = ''validation'',
                      q_quarantine_reason = err_reason (hd errors),
                      q_quarantine_details = Violations errors,
                      q_raw_payload = sd_raw_payload sleep_day,
                      q_fingerprint = Some (sd_fingerprint sleep_day),
                      q_effective_date = Some (sd_effective_date sleep_day),
                      q_raw_response_id = Some raw_response_id \<rparr>
              in Inr (result\<lparr> records_quarantined := records_quarantined result + 1,
                              results := results result @ [quarantined_result] \<rparr>, s'))
           else
             (case upsert (env_db_now e) (sleep_days (pending s)) (upsert_dict sleep_day) of
                Inl exc \<Rightarrow>
                  (let s1 = rollback s
                   in if names_source_record exc then
                        (let (qid, s') = quarantine s1
                               \<lparr> q_id = 0, q_patient_id = patient_id, q_source = source,
                                 q_pipeline_stage = ''upsert'',
                                 q_quarantine_reason = ''source_record_id_reused_across_dates'',
                                 q_quarantine_details =
                                   ReusedRecordId (sd_source_record_id sleep_day)
                                     (sd_effective_date sleep_day) (sd_fingerprint sleep_day),
                                 q_raw_payload = sd_raw_payload sleep_day,
                                 q_fingerprint = Some (sd_fingerprint sleep_day),
                                 q_effective_date = Some (sd_effective_date sleep_day),
                                 q_raw_response_id = Some raw_response_id \<rparr>
                         in Inr (result\<lparr> records_quarantined := records_quarantined result + 1,
                                         results := results result @ [quarantined_result] \<rparr>,
                                 s'))
                      else Inl exc)
              | Inr (db_result, tbl) \<Rightarrow>
                  Inr (result\<lparr> records_inserted :=
                                  (if was_inserted db_result then records_inserted result + 1
                                   else records_inserted result),
                                records_updated :=
                                  (if was_inserted db_result then records_updated result
                                   else records_updated result + 1),
                                records_processed := records_processed result + 1,
                                results := results result
                                  @ [\<lparr> sleep_day_id = Some (res_id db_result),
                                        status = upsert_status db_result \<rparr>] \<rparr>,
                       s\<lparr>pending := (pending s)\<lparr>sleep_days := tbl\<rparr>\<rparr>))))"

fun ingest_records ::
  "env \<Rightarrow> string \<Rightarrow> uuid \<Rightarrow> uuid \<Rightarrow> SleepDay list \<Rightarrow> IngestResult \<times> session
     \<Rightarrow> IntegrityError + (IngestResult \<times> session)" where
  "ingest_records e source patient_id raw_response_id [] st = Inr st"
| "ingest_records e source patient_id raw_response_id (sleep_day # rest) st =
     (case ingest_record e source patient_id raw_response_id sleep_day st of
        Inl exc \<Rightarrow> Inl exc
      | Inr st' \<Rightarrow> ingest_records e source patient_id raw_response_id rest st')"

datatype ingest_error = Raised py_error | Storage IntegrityError

text \<open>
  The records the adapter maps from a payload in a given session: \<open>adapter.parse\<close> with
  the ids that \<open>ingest_sleep_data\<close> leaves for it (after the batch id and the id of the
  archived response).
\<close>

definition parsed_records ::
  "env \<Rightarrow> session \<Rightarrow> string \<Rightarrow> raw_response \<Rightarrow> uuid \<Rightarrow> py_error + SleepDay list" where
  "parsed_records e s source raw_payload patient_id =
     (case get_adapter source of
        Inl err \<Rightarrow> Inl err
      | Inr parse \<Rightarrow> parse (env_lib e) (env_now e) (next_uuid s + 2) raw_payload patient_id)"

text \<open>\<open>ingest_sleep_data\<close>\<close>

definition ingest_sleep_data ::
  "env \<Rightarrow> session \<Rightarrow> string \<Rightarrow> raw_response \<Rightarrow> uuid
     \<Rightarrow> ingest_error + (IngestResult \<times> session)" where
  "ingest_sleep_data e s source raw_payload patient_id =
     (case get_adapter source of
        Inl err \<Rightarrow> Inl (Raised err)
      | Inr parse \<Rightarrow>
          (let new_batch_id = next_uuid s;
               s0 = s\<lparr>next_uuid := next_uuid s + 1\<rparr>;
               result = \<lparr> results = [], records_processed = 0, records_inserted = 0,
                          records_updated = 0, records_quarantined = 0,
                          batch_id = new_batch_id \<rparr>;
               (raw_response_id, s1) = store_raw_response s0
                 \<lparr> raw_id = 0, raw_patient_id = patient_id, raw_source = source,
                   raw_endpoint = ''/v2/'' @ source @ ''/sleep'',
                   raw_response_body = rr_json raw_payload, raw_http_status = 200,
                   raw_batch_id = new_batch_id \<rparr>
           in (case parse (env_lib e) (env_now e) (next_uuid s1) raw_payload patient_id of
                 Inl err \<Rightarrow>
                   (let (qid, s2) = quarantine s1
                          \<lparr> q_id = 0, q_patient_id = patient_id, q_source = source,
                            q_pipeline_stage = ''adapter'',
                            q_quarantine_reason = ''adapter_parse_error'',
                            q_quarantine_details = ParseFailure,
                            q_raw_payload = rr_json raw_payload, q_fingerprint = None,
                            q_effective_date = None,
                            q_raw_response_id = Some raw_response_id \<rparr>
                    in Inr (result\<lparr>records_quarantined := 1\<rparr>, commit s2))
               | Inr sleep_days_list \<Rightarrow>
                   (case ingest_records e source patient_id raw_response_id sleep_days_list
                           (result, s1\<lparr>next_uuid := next_uuid s1 + length sleep_days_list\<rparr>) of
                      Inl exc \<Rightarrow> Inl (Storage exc)
                    | Inr (result', s') \<Rightarrow> Inr (result', commit s')))))"

text \<open>An empty database in a fresh session, and the surroundings of the example runs.\<close>

definition empty_db :: db where
  "empty_db = \<lparr> sleep_days = [], quarantine_records = [], raw_vendor_responses = [] \<rparr>"

definition fresh_session :: session where
  "fresh_session = \<lparr> committed = empty_db, pending = empty_db, next_uuid = 1 \<rparr>"

definition example_env :: env where
  "example_env = \<lparr> env_lib = dates_only_lib, env_now = 5, env_today = Date 2024 3 20,
                    env_db_now = 6 \<rparr>"

text \<open>
  An entry that passes the validation (its stages add up to its total), and a payload
  whose two entries carry the same vendor id \<open>x\<close> for two different days.
\<close>

definition valid_oura_entry :: oura_entry where
  "valid_oura_entry =
     scenario_oura_entry\<lparr> oe_total_sleep_duration := Some 28800,
       oe_deep_sleep_duration := Some 5400, oe_light_sleep_duration := Some 14400,
       oe_rem_sleep_duration := Some 7200, oe_awake_time := Some 1800 \<rparr>"

definition reused_id_payload :: raw_response where
  "reused_id_payload =
     \<lparr> rr_json = JObj [],
       rr_data = Some [valid_oura_entry, valid_oura_entry\<lparr>oe_day := Some ''2024-03-15''\<rparr>],
       rr_body = None, rr_series = None \<rparr>"

text \<open>
  The counter invariant of an \<open>IngestResult\<close> after \<open>n\<close> mapped records.
\<close>

definition counters_ok :: "nat \<Rightarrow> IngestResult \<Rightarrow> bool" where
  "counters_ok n result \<longleftrightarrow>
     length (results result) = n
     \<and> records_inserted result + records_updated result + records_quarantined result = n
     \<and> records_processed result = records_inserted result + records_updated result
     \<and> (\<forall>r\<in>set (results result). status r = ''quarantined'' \<longrightarrow> sleep_day_id r = None)"

text \<open>
  The record the Oura mapper makes of \<open>valid_oura_entry\<close>, with the id, the fingerprint
  and the effective date left open.
\<close>

definition example_candidate :: "uuid \<Rightarrow> string \<Rightarrow> date \<Rightarrow> SleepDay" where
  "example_candidate i fp d =
     \<lparr> sd_id = i, sd_patient_id = 7, sd_source = OURA, sd_source_record_id = ''x'',
       sd_raw_payload = JObj [(''id'', JStr ''x'')], sd_fingerprint = fp,
       sd_effective_date = d, sd_ingested_at = 5, sd_updated_at = 5,
       sd_total_sleep_minutes = Some 480, sd_deep_sleep_minutes = Some 90,
       sd_light_sleep_minutes = Some 240, sd_rem_sleep_minutes = Some 120,
       sd_awake_minutes = Some 30, sd_sleep_onset = None, sd_sleep_offset = None,
       sd_sleep_efficiency = Some (nearest_double (88 / 100)),
       sd_extra = [(''sleep_type'', JStr ''long_sleep'')] \<rparr>"

section \<open>The claim protocol\<close>

lemma claim_absent:
  "tbl k = None \<Longrightarrow> fst (atomic_claim_idempotency_key now tbl k src h) = Claimed"
  by (simp add: atomic_claim_idempotency_key_def purge_expired_def insert_do_nothing_def)

lemma claim_expired:
  "tbl k = Some r \<Longrightarrow> ik_expires_at r \<le> now \<Longrightarrow>
   fst (atomic_claim_idempotency_key now tbl k src h) = Claimed"
  by (simp add: atomic_claim_idempotency_key_def purge_expired_def insert_do_nothing_def)

lemma claim_live:
  "tbl k = Some r \<Longrightarrow> now < ik_expires_at r \<Longrightarrow>
   atomic_claim_idempotency_key now tbl k src h =
     (if ik_request_hash r \<noteq> h then (Conflict, tbl)
      else case ik_status_code r of
             Some code \<Rightarrow> (Completed code (ik_response_body r), tbl)
           | None \<Rightarrow> (InFlight, tbl))"
  by (simp add: atomic_claim_idempotency_key_def purge_expired_def insert_do_nothing_def
      select_live_def)

lemma claim_fresh_row:
  "tbl k = None \<or> (\<exists>r. tbl k = Some r \<and> ik_expires_at r \<le> now) \<Longrightarrow>
   \<exists>r'. snd (atomic_claim_idempotency_key now tbl k src h) k = Some r'
      \<and> ik_request_hash r' = h \<and> ik_expires_at r' = now + idempotency_ttl
      \<and> ik_status_code r' = None"
  by (auto simp add: atomic_claim_idempotency_key_def purge_expired_def insert_do_nothing_def)


text \<open>
  C2. The result of a claim is determined by the prior state of the key: an absent or
  expired key is claimed; a live key with another request hash is a conflict; a live key
  with the same hash is completed (with the stored status code and body) when a status
  code is stored and in flight when none is. Two claims in sequence for a fresh key,
  the second within the time to live and with another hash, give claimed, then conflict.
\<close>

theorem claim_by_prior_state:
  "(tbl k = None \<or> (\<exists>r. tbl k = Some r \<and> ik_expires_at r \<le> now)
      \<longrightarrow> fst (atomic_claim_idempotency_key now tbl k src h) = Claimed)
   \<and> (\<forall>r. tbl k = Some r \<and> now < ik_expires_at r \<and> ik_request_hash r \<noteq> h
      \<longrightarrow> fst (atomic_claim_idempotency_key now tbl k src h) = Conflict)
   \<and> (\<forall>r code. tbl k = Some r \<and> now < ik_expires_at r \<and> ik_request_hash r = h
            \<and> ik_status_code r = Some code
      \<longrightarrow> fst (atomic_claim_idempotency_key now tbl k src h)
            = Completed code (ik_response_body r))
   \<and> (\<forall>r. tbl k = Some r \<and> now < ik_expires_at r \<and> ik_request_hash r = h
            \<and> ik_status_code r = None
      \<longrightarrow> fst (atomic_claim_idempotency_key now tbl k src h) = InFlight)
   \<and> (\<forall>now' src' h'.
          (tbl k = None \<or> (\<exists>r. tbl k = Some r \<and> ik_expires_at r \<le> now))
          \<and> h' \<noteq> h \<and> now \<le> now' \<and> now' < now + idempotency_ttl
      \<longrightarrow> fst (atomic_claim_idempotency_key now tbl k src h) = Claimed
          \<and> fst (atomic_claim_idempotency_key now'
                    (snd (atomic_claim_idempotency_key now tbl k src h)) k src' h') = Conflict)"
proof (intro conjI allI impI)
  assume "tbl k = None \<or> (\<exists>r. tbl k = Some r \<and> ik_expires_at r \<le> now)"
  then show "fst (atomic_claim_idempotency_key now tbl k src h) = Claimed"
    by (auto simp: claim_absent claim_expired)
next
  fix r
  assume "tbl k = Some r \<and> now < ik_expires_at r \<and> ik_request_hash r \<noteq> h"
  then show "fst (atomic_claim_idempotency_key now tbl k src h) = Conflict"
    by (simp add: claim_live)
next
  fix r code
  assume "tbl k = Some r \<and> now < ik_expires_at r \<and> ik_request_hash r = h
            \<and> ik_status_code r = Some code"
  then show "fst (atomic_claim_idempotency_key now tbl k src h)
            = Completed code (ik_response_body r)"
    by (simp add: claim_live)
next
  fix r
  assume "tbl k = Some r \<and> now < ik_expires_at r \<and> ik_request_hash r = h
            \<and> ik_status_code r = None"
  then show "fst (atomic_claim_idempotency_key now tbl k src h) = InFlight"
    by (simp add: claim_live)
next
  fix now' src' h'
  assume a: "(tbl k = None \<or> (\<exists>r. tbl k = Some r \<and> ik_expires_at r \<le> now))
          \<and> h' \<noteq> h \<and> now \<le> now' \<and> now' < now + idempotency_ttl"
  then show "fst (atomic_claim_idempotency_key now tbl k src h) = Claimed"
    by (auto simp: claim_absent claim_expired)
next
  fix now' src' h'
  assume a: "(tbl k = None \<or> (\<exists>r. tbl k = Some r \<and> ik_expires_at r \<le> now))
          \<and> h' \<noteq> h \<and> now \<le> now' \<and> now' < now + idempotency_ttl"
  then obtain r' where r':
      "snd (atomic_claim_idempotency_key now tbl k src h) k = Some r'"
      "ik_request_hash r' = h" "ik_expires_at r' = now + idempotency_ttl"
    using claim_fresh_row [of tbl k now src h] by blast
  from a r' have "now' < ik_expires_at r'" by simp
  with r' a show "fst (atomic_claim_idempotency_key now'
                    (snd (atomic_claim_idempotency_key now tbl k src h)) k src' h') = Conflict"
    by (auto simp add: claim_live)
qed

theorem claim_by_prior_state_witness:
  "fst (atomic_claim_idempotency_key 5 (Map.empty :: idempotency_keys) ''k1'' ''oura'' ''h1'')
     = Claimed
   \<and> fst (atomic_claim_idempotency_key 5 [''k1'' \<mapsto> example_key_row] ''k1'' ''oura'' ''h2'')
     = Conflict
   \<and> fst (atomic_claim_idempotency_key 5 [''k1'' \<mapsto> example_key_row] ''k1'' ''oura'' ''h1'')
     = Completed 201 (Some (JObj [(''status'', JStr ''created'')]))
   \<and> fst (atomic_claim_idempotency_key 5
            [''k1'' \<mapsto> example_key_row\<lparr>ik_status_code := None\<rparr>] ''k1'' ''oura'' ''h1'')
     = InFlight
   \<and> fst (atomic_claim_idempotency_key 200 [''k1'' \<mapsto> example_key_row] ''k1'' ''oura'' ''h2'')
     = Claimed
   \<and> fst (atomic_claim_idempotency_key 6
            (snd (atomic_claim_idempotency_key 5 Map.empty ''k1'' ''oura'' ''h1''))
            ''k1'' ''oura'' ''h2'') = Conflict"
proof -
  have ttl: "(6::int) < 5 + idempotency_ttl" by (simp add: idempotency_ttl_def)
  have row: "ik_expires_at example_key_row = 100" "ik_request_hash example_key_row = ''h1''"
    "ik_status_code example_key_row = Some 201"
    "ik_response_body example_key_row = Some (JObj [(''status'', JStr ''created'')])"
    by (simp_all add: example_key_row_def)
  note t1 = claim_by_prior_state [of "Map.empty" "''k1''" 5 "''oura''" "''h1''"]
  note t2 = claim_by_prior_state [of "[''k1'' \<mapsto> example_key_row]" "''k1''" 5 "''oura''" "''h2''"]
  note t3 = claim_by_prior_state [of "[''k1'' \<mapsto> example_key_row]" "''k1''" 5 "''oura''" "''h1''"]
  note t4 = claim_by_prior_state [of "[''k1'' \<mapsto> example_key_row\<lparr>ik_status_code := None\<rparr>]"
      "''k1''" 5 "''oura''" "''h1''"]
  note t5 = claim_by_prior_state [of "[''k1'' \<mapsto> example_key_row]" "''k1''" 200 "''oura''" "''h2''"]
  have c1: "fst (atomic_claim_idempotency_key 5 (Map.empty :: idempotency_keys) ''k1'' ''oura'' ''h1'')
     = Claimed" using t1 by simp
  have c2: "fst (atomic_claim_idempotency_key 5 [''k1'' \<mapsto> example_key_row] ''k1'' ''oura'' ''h2'')
     = Conflict" using t2 row by simp
  have c3: "fst (atomic_claim_idempotency_key 5 [''k1'' \<mapsto> example_key_row] ''k1'' ''oura'' ''h1'')
     = Completed 201 (Some (JObj [(''status'', JStr ''created'')]))" using t3 row by simp
  have c4: "fst (atomic_claim_idempotency_key 5
            [''k1'' \<mapsto> example_key_row\<lparr>ik_status_code := None\<rparr>] ''k1'' ''oura'' ''h1'')
     = InFlight" using t4 row by simp
  have c5: "fst (atomic_claim_idempotency_key 200 [''k1'' \<mapsto> example_key_row] ''k1'' ''oura'' ''h2'')
     = Claimed" using t5 row by simp
  have c6: "fst (atomic_claim_idempotency_key 6
            (snd (atomic_claim_idempotency_key 5 Map.empty ''k1'' ''oura'' ''h1''))
            ''k1'' ''oura'' ''h2'') = Conflict" using t1 ttl by simp
  from c1 c2 c3 c4 c5 c6 show ?thesis by blast
qed


section \<open>Upsert by fingerprint\<close>

text \<open>
  C4. An upsert that returns either created a row (the table grows by the proposed row,
  and \<open>was_inserted\<close> is true) or hit the stored row with the same fingerprint
  (\<open>was_inserted\<close> is false, no row is added). In the second case the stored row keeps
  its id, patient, source, source record id, effective date, fingerprint and
  \<open>ingested_at\<close>; its five minute metrics, onset, offset, efficiency, extension map and
  raw payload are those of the proposed row and \<open>updated_at\<close> is the database's
  \<open>now()\<close>; every other row is unchanged. The pipeline's status is \<open>created\<close> exactly when
  the flag is true.
\<close>

theorem upsert_frame:
  assumes "upsert db_now tbl record = Inr (res, tbl')"
  shows "(was_inserted res \<longleftrightarrow> (\<forall>r\<in>set tbl. row_fingerprint r \<noteq> row_fingerprint record))
    \<and> (was_inserted res \<longleftrightarrow> length tbl' = length tbl + 1)
    \<and> (upsert_status res = ''created'' \<longleftrightarrow> was_inserted res)
    \<and> (upsert_status res = ''deduplicated'' \<longleftrightarrow> \<not> was_inserted res)
    \<and> (was_inserted res \<longrightarrow> tbl' = tbl @ [record] \<and> res_id res = row_id record)
    \<and> (\<not> was_inserted res \<longrightarrow> length tbl' = length tbl
          \<and> (\<exists>r\<in>set tbl. row_fingerprint r = row_fingerprint record \<and> res_id res = row_id r))
    \<and> (\<forall>i < length tbl.
          row_id (tbl' ! i) = row_id (tbl ! i)
        \<and> row_patient_id (tbl' ! i) = row_patient_id (tbl ! i)
        \<and> row_source (tbl' ! i) = row_source (tbl ! i)
        \<and> row_source_record_id (tbl' ! i) = row_source_record_id (tbl ! i)
        \<and> row_effective_date (tbl' ! i) = row_effective_date (tbl ! i)
        \<and> row_fingerprint (tbl' ! i) = row_fingerprint (tbl ! i)
        \<and> row_ingested_at (tbl' ! i) = row_ingested_at (tbl ! i)
        \<and> (if row_fingerprint (tbl ! i) = row_fingerprint record
            then row_total_sleep_minutes (tbl' ! i) = row_total_sleep_minutes record
               \<and> row_deep_sleep_minutes (tbl' ! i) = row_deep_sleep_minutes record
               \<and> row_light_sleep_minutes (tbl' ! i) = row_light_sleep_minutes record
               \<and> row_rem_sleep_minutes (tbl' ! i) = row_rem_sleep_minutes record
               \<and> row_awake_minutes (tbl' ! i) = row_awake_minutes record
               \<and> row_sleep_onset (tbl' ! i) = row_sleep_onset record
               \<and> row_sleep_offset (tbl' ! i) = row_sleep_offset record
               \<and> row_sleep_efficiency (tbl' ! i) = row_sleep_efficiency record
               \<and> row_extra (tbl' ! i) = row_extra record
               \<and> row_raw_payload (tbl' ! i) = row_raw_payload record
               \<and> row_updated_at (tbl' ! i) = db_now
            else tbl' ! i = tbl ! i))"
proof (cases "find (\<lambda>r. row_fingerprint r = row_fingerprint record) tbl")
  case None
  with assms have ins: "res = \<lparr> res_id = row_id record, was_inserted = True \<rparr>"
    "tbl' = tbl @ [record]"
    by (auto simp: upsert_def split: option.splits if_splits)
  from None have nofp: "\<forall>r\<in>set tbl. row_fingerprint r \<noteq> row_fingerprint record"
    by (simp add: find_None_iff)
  show ?thesis using ins nofp by (auto simp: nth_append upsert_status_def)
next
  case (Some existing)
  with assms have upd: "res = \<lparr> res_id = row_id existing, was_inserted = False \<rparr>"
    "tbl' = map (\<lambda>r. if row_fingerprint r = row_fingerprint record
                              then on_conflict_do_update db_now r record else r) tbl"
    by (auto simp: upsert_def split: option.splits if_splits)
  from Some have ex: "existing \<in> set tbl" "row_fingerprint existing = row_fingerprint record"
    by (auto simp: find_Some_iff)
  show ?thesis using upd ex by (auto simp: on_conflict_do_update_def upsert_status_def)
qed

theorem upsert_frame_witness:
  "upsert 50 [timeline_row 11 ''a'' (Date 2024 3 14)]
      ((timeline_row 99 ''a'' (Date 2024 3 14))\<lparr>row_total_sleep_minutes := Some 440\<rparr>)
     = Inr (\<lparr> res_id = 11, was_inserted = False \<rparr>,
            [(timeline_row 11 ''a'' (Date 2024 3 14))
               \<lparr>row_total_sleep_minutes := Some 440, row_updated_at := 50\<rparr>])
   \<and> \<not> (\<forall>r\<in>set [timeline_row 11 ''a'' (Date 2024 3 14)].
          row_fingerprint r \<noteq> row_fingerprint (timeline_row 99 ''a'' (Date 2024 3 14)))
   \<and> upsert_status \<lparr> res_id = 11, was_inserted = False \<rparr> = ''deduplicated''"
proof -
  have run: "upsert 50 [timeline_row 11 ''a'' (Date 2024 3 14)]
      ((timeline_row 99 ''a'' (Date 2024 3 14))\<lparr>row_total_sleep_minutes := Some 440\<rparr>)
     = Inr (\<lparr> res_id = 11, was_inserted = False \<rparr>,
            [(timeline_row 11 ''a'' (Date 2024 3 14))
               \<lparr>row_total_sleep_minutes := Some 440, row_updated_at := 50\<rparr>])"
    by (simp add: upsert_def timeline_row_def check_constraints_def nonneg_opt_def
        on_conflict_do_update_def)
  from upsert_frame [OF run] run show ?thesis by simp
qed

section \<open>Keyset pagination\<close>

lemma filter_gt_strict_sorted:
  fixes f :: "'a \<Rightarrow> 'k::linorder"
  assumes "sorted_wrt (<) (map f xs)" "i < length xs"
  shows "filter (\<lambda>r. f (xs ! i) < f r) xs = drop (Suc i) xs"
proof -
  have split: "xs = take i xs @ xs ! i # drop (Suc i) xs"
    using assms(2) by (rule id_take_nth_drop)
  have s: "sorted_wrt (<) (map f (take i xs) @ f (xs ! i) # map f (drop (Suc i) xs))"
    using assms(1) split by (metis list.simps(9) map_append)
  have lo: "\<forall>r\<in>set (take i xs). f r < f (xs ! i)"
    using s by (auto simp: sorted_wrt_append)
  have hi: "\<forall>r\<in>set (drop (Suc i) xs). f (xs ! i) < f r"
    using s by (auto simp: sorted_wrt_append)
  have "filter (\<lambda>r. f (xs ! i) < f r) xs
      = filter (\<lambda>r. f (xs ! i) < f r) (take i xs @ xs ! i # drop (Suc i) xs)"
    using split by simp
  also have "\<dots> = drop (Suc i) xs"
    using lo hi by (auto simp: filter_empty_conv filter_id_conv)
  finally show ?thesis .
qed

lemma date_key_inj: "date_key a = date_key b \<longleftrightarrow> a = b"
  by (cases a; cases b) (simp add: date_key_def)

lemma less_pair_iff:
  fixes a b :: "'a::linorder" and x y :: "'b::linorder"
  shows "(a, x) < (b, y) \<longleftrightarrow> a < b \<or> (a = b \<and> x < y)"
  by (auto simp: less_prod_def)

lemma row_key_inj_on: "distinct (map row_id tbl) \<Longrightarrow> inj_on row_key (set tbl)"
  by (auto simp: inj_on_def row_key_def distinct_map)

lemma sorted_strict:
  assumes "distinct (map row_id tbl)"
  shows "sorted_wrt (<) (map row_key (sort_key row_key tbl))"
proof -
  have d: "distinct tbl" using assms by (simp add: distinct_map)
  have "distinct (map row_key (sort_key row_key tbl))"
    using row_key_inj_on[OF assms] d by (simp add: distinct_map)
  moreover have "sorted (map row_key (sort_key row_key tbl))"
    by (rule sorted_sort_key)
  ultimately show ?thesis
    by (simp add: strict_sorted_iff)
qed


lemma filter_lt_strict_sorted_desc:
  fixes f :: "'a \<Rightarrow> 'k::linorder"
  assumes "sorted_wrt (>) (map f xs)" "i < length xs"
  shows "filter (\<lambda>r. f r < f (xs ! i)) xs = drop (Suc i) xs"
proof -
  have split: "xs = take i xs @ xs ! i # drop (Suc i) xs"
    using assms(2) by (rule id_take_nth_drop)
  have s: "sorted_wrt (>) (map f (take i xs) @ f (xs ! i) # map f (drop (Suc i) xs))"
    using assms(1) split by (metis list.simps(9) map_append)
  have lo: "\<forall>r\<in>set (take i xs). f (xs ! i) < f r"
    using s by (auto simp: sorted_wrt_append)
  have hi: "\<forall>r\<in>set (drop (Suc i) xs). f r < f (xs ! i)"
    using s by (auto simp: sorted_wrt_append)
  have "filter (\<lambda>r. f r < f (xs ! i)) xs
      = filter (\<lambda>r. f r < f (xs ! i)) (take i xs @ xs ! i # drop (Suc i) xs)"
    using split by simp
  also have "\<dots> = drop (Suc i) xs"
    using lo hi by (auto simp: filter_empty_conv filter_id_conv)
  finally show ?thesis .
qed

lemma after_cursor_key':
  "after_cursor descending c r
     = (if descending then row_key r < cursor_key c else cursor_key c < row_key r)"
  unfolding after_cursor_def row_key_def cursor_key_def less_pair_iff date_key_inj
  by (cases c) auto

lemma after_cursor_fun:
  "after_cursor descending c
     = (\<lambda>r. if descending then row_key r < cursor_key c else cursor_key c < row_key r)"
  by (rule ext) (rule after_cursor_key')

lemma cursor_key_row: "cursor_key (row_effective_date r, row_id r) = row_key r"
  by (simp add: cursor_key_def row_key_def)

lemma timeline_query_base:
  "timeline_query tbl pid s e cur d =
     order_by d (case cur of None \<Rightarrow> timeline_base tbl pid s e
                 | Some c \<Rightarrow> filter (after_cursor d c) (timeline_base tbl pid s e))"
  by (simp add: timeline_query_def timeline_base_def Let_def split: option.splits)

lemma distinct_base:
  "distinct (map row_id tbl) \<Longrightarrow> distinct (map row_id (timeline_base tbl pid s e))"
  by (auto simp: timeline_base_def Let_def distinct_map_filter split: option.splits)

lemma order_by_filter: "order_by d (filter P xs) = filter P (order_by d xs)"
  by (simp add: order_by_def filter_sort rev_filter[symmetric])

lemma order_by_sorted:
  assumes "distinct (map row_id xs)"
  shows "sorted_wrt (if d then (>) else (<)) (map row_key (order_by d xs))"
proof (cases d)
  case False
  then show ?thesis using sorted_strict[OF assms] by (simp add: order_by_def)
next
  case True
  have "sorted_wrt (\<lambda>x y. y < x) (rev (map row_key (sort_key row_key xs)))"
    using sorted_strict[OF assms] by (simp add: sorted_wrt_rev)
  then show ?thesis using True by (simp add: order_by_def rev_map)
qed

lemma timeline_query_sorted:
  assumes "distinct (map row_id tbl)"
  shows "sorted_wrt (if d then (>) else (<)) (map row_key (timeline_query tbl pid s e cur d))"
proof -
  have "distinct (map row_id (case cur of None \<Rightarrow> timeline_base tbl pid s e
                 | Some c \<Rightarrow> filter (after_cursor d c) (timeline_base tbl pid s e)))"
    using distinct_base[OF assms, of pid s e] by (auto simp: distinct_map_filter split: option.splits)
  then show ?thesis unfolding timeline_query_base by (rule order_by_sorted)
qed

lemma timeline_query_next:
  assumes dist: "distinct (map row_id tbl)"
    and j: "j < length (timeline_query tbl pid s e cur d)"
  shows "timeline_query tbl pid s e
           (Some (row_effective_date (timeline_query tbl pid s e cur d ! j),
                  row_id (timeline_query tbl pid s e cur d ! j))) d
         = drop (Suc j) (timeline_query tbl pid s e cur d)"
proof -
  let ?q = "timeline_query tbl pid s e cur d"
  let ?b = "timeline_base tbl pid s e"
  let ?c = "(row_effective_date (?q ! j), row_id (?q ! j))"
  have qj: "?q ! j \<in> set ?q" using j by simp
  have trans: "filter (after_cursor d ?c) (order_by d ?b) = filter (after_cursor d ?c) ?q"
  proof (cases cur)
    case None
    then show ?thesis by (simp add: timeline_query_base)
  next
    case (Some c0)
    have q: "?q = filter (after_cursor d c0) (order_by d ?b)"
      using Some by (simp add: timeline_query_base order_by_filter)
    have "after_cursor d c0 (?q ! j)" 
    proof -
      from qj q have "?q ! j \<in> set (filter (after_cursor d c0) (order_by d ?b))" by simp
      then show ?thesis by simp
    qed
    then have "\<And>r. after_cursor d ?c r \<Longrightarrow> after_cursor d c0 r"
      by (auto simp: after_cursor_key' cursor_key_row split: if_splits)
    then have "filter (after_cursor d ?c) (order_by d ?b)
        = filter (\<lambda>r. after_cursor d c0 r \<and> after_cursor d ?c r) (order_by d ?b)"
      by (intro filter_cong) auto
    then show ?thesis using q by (simp add: conj_commute)
  qed
  have "timeline_query tbl pid s e (Some ?c) d = filter (after_cursor d ?c) (order_by d ?b)"
    by (simp add: timeline_query_base order_by_filter)
  also have "\<dots> = filter (after_cursor d ?c) ?q" by (rule trans)
  also have "\<dots> = drop (Suc j) ?q"
  proof (cases d)
    case True
    have "sorted_wrt (>) (map row_key ?q)"
      using timeline_query_sorted[OF dist, of d pid s e cur] True by simp
    from filter_lt_strict_sorted_desc[OF this j] True show ?thesis
      by (simp add: after_cursor_fun cursor_key_row)
  next
    case False
    have "sorted_wrt (<) (map row_key ?q)"
      using timeline_query_sorted[OF dist, of d pid s e cur] False by simp
    from filter_gt_strict_sorted[OF this j] False show ?thesis
      by (simp add: after_cursor_fun cursor_key_row)
  qed
  finally show ?thesis .
qed

lemma get_timeline_page:
  assumes "1 \<le> limit"
  shows "get_timeline tbl pid s e cur limit d =
     Inr (take (nat limit) (timeline_query tbl pid s e cur d),
          if int (length (timeline_query tbl pid s e cur d)) > limit
          then Some (row_effective_date (timeline_query tbl pid s e cur d ! (nat limit - 1)),
                     row_id (timeline_query tbl pid s e cur d ! (nat limit - 1)))
          else None)"
proof -
  let ?q = "timeline_query tbl pid s e cur d"
  have n: "nat (limit + 1) = Suc (nat limit)" using assms by (simp add: nat_add_distrib)
  show ?thesis
  proof (cases "int (length ?q) > limit")
    case True
    then have "Suc (nat limit) \<le> length ?q" using assms by linarith
    then have len: "length (take (Suc (nat limit)) ?q) = Suc (nat limit)" by simp
    have tk: "take (nat limit) (take (Suc (nat limit)) ?q) = take (nat limit) ?q" by simp
    have ne: "take (nat limit) ?q \<noteq> []" using True assms by auto
    have l2: "length (take (nat limit) ?q) = nat limit" using True by simp
    have "last (take (nat limit) ?q) = take (nat limit) ?q ! (nat limit - 1)"
      using ne l2 by (simp add: last_conv_nth)
    also have "\<dots> = ?q ! (nat limit - 1)" using assms by simp
    finally have lst: "last (take (nat limit) ?q) = ?q ! (nat limit - 1)" .
    show ?thesis using True assms len tk ne lst
      by (simp add: get_timeline_def Let_def n slice_to_def)
  next
    case False
    then have "take (Suc (nat limit)) ?q = ?q" "take (nat limit) ?q = ?q" by auto
    then show ?thesis using False assms
      by (simp add: get_timeline_def Let_def n)
  qed
qed



text \<open>
  C9. With unique row ids and a limit of at least one, a timeline read returns the first
  \<open>limit\<close> rows of the ordered query (at most \<open>limit\<close> rows, in the order of effective
  date and id, ascending or descending), and a cursor exactly when the query has more
  than \<open>limit\<close> rows; reading on from that cursor returns the next \<open>limit\<close> rows, none of
  which was on the page before. Three matching rows read with limit 1 give three pages
  of one row each, with a cursor after the first and the second page and none after
  the third, and the three rows are distinct.
\<close>

theorem timeline_pagination:
  assumes dist: "distinct (map row_id tbl)" and lim: "1 \<le> limit"
  shows "(\<exists>rows nc. get_timeline tbl pid s e cur limit d = Inr (rows, nc)
     \<and> int (length rows) \<le> limit
     \<and> rows = take (nat limit) (timeline_query tbl pid s e cur d)
     \<and> sorted_wrt (if d then (>) else (<)) (map row_key rows)
     \<and> (nc \<noteq> None \<longleftrightarrow> limit < int (length (timeline_query tbl pid s e cur d)))
     \<and> (\<forall>c. nc = Some c \<longrightarrow>
           (\<exists>rows2 nc2. get_timeline tbl pid s e (Some c) limit d = Inr (rows2, nc2)
              \<and> rows @ rows2 = take (2 * nat limit) (timeline_query tbl pid s e cur d)
              \<and> set rows \<inter> set rows2 = {})))
   \<and> (length (timeline_query tbl pid s e None d) = 3 \<longrightarrow>
        (\<exists>r1 r2 r3 c1 c2. timeline_query tbl pid s e None d = [r1, r2, r3]
           \<and> distinct [r1, r2, r3]
           \<and> get_timeline tbl pid s e None 1 d = Inr ([r1], Some c1)
           \<and> get_timeline tbl pid s e (Some c1) 1 d = Inr ([r2], Some c2)
           \<and> get_timeline tbl pid s e (Some c2) 1 d = Inr ([r3], None)))"
proof (rule conjI)
  let ?q = "timeline_query tbl pid s e cur d"
  let ?n = "nat limit"
  let ?nc = "if int (length ?q) > limit
          then Some (row_effective_date (?q ! (?n - 1)), row_id (?q ! (?n - 1))) else None"
  have page: "get_timeline tbl pid s e cur limit d = Inr (take ?n ?q, ?nc)"
    by (rule get_timeline_page[OF lim])
  have srt: "sorted_wrt (if d then (>) else (<)) (map row_key ?q)"
    by (rule timeline_query_sorted[OF dist])
  have dq: "distinct ?q"
  proof -
    have "distinct (map row_key ?q)"
    proof (cases d)
      case True
      with srt have "sorted_wrt (<) (rev (map row_key ?q))" by (simp add: sorted_wrt_rev)
      then have "distinct (rev (map row_key ?q))" by (simp add: strict_sorted_iff)
      then show ?thesis by simp
    next
      case False
      with srt show ?thesis by (simp add: strict_sorted_iff)
    qed
    then show ?thesis by (simp add: distinct_map)
  qed
  have len: "int (length (take ?n ?q)) \<le> limit" using lim by simp
  have srt': "sorted_wrt (if d then (>) else (<)) (map row_key (take ?n ?q))"
    using srt by (simp add: take_map[symmetric] sorted_wrt_take)
  have nxt: "\<forall>c. ?nc = Some c \<longrightarrow>
           (\<exists>rows2 nc2. get_timeline tbl pid s e (Some c) limit d = Inr (rows2, nc2)
              \<and> take ?n ?q @ rows2 = take (2 * ?n) ?q
              \<and> set (take ?n ?q) \<inter> set rows2 = {})"
  proof (intro allI impI)
    fix c assume c: "?nc = Some c"
    then have more: "int (length ?q) > limit"
      and cdef: "c = (row_effective_date (?q ! (?n - 1)), row_id (?q ! (?n - 1)))"
      by (auto split: if_splits)
    have j: "?n - 1 < length ?q" using more lim by linarith
    have "timeline_query tbl pid s e (Some c) d = drop (Suc (?n - 1)) ?q"
      unfolding cdef by (rule timeline_query_next[OF dist j])
    then have q2: "timeline_query tbl pid s e (Some c) d = drop ?n ?q" using lim by simp
    obtain rows2 nc2 where p2: "get_timeline tbl pid s e (Some c) limit d = Inr (rows2, nc2)"
      and r2: "rows2 = take ?n (drop ?n ?q)"
      using get_timeline_page[OF lim, of tbl pid s e "Some c" d] q2 by simp
    have "take ?n ?q @ rows2 = take (2 * ?n) ?q"
      unfolding r2 by (simp add: take_add[symmetric] mult_2)
    moreover have "set (take ?n ?q) \<inter> set rows2 = {}"
      unfolding r2 using dq
      by (meson disjoint_iff in_set_takeD set_take_disj_set_drop_if_distinct order_refl)
    ultimately show "\<exists>rows2 nc2. get_timeline tbl pid s e (Some c) limit d = Inr (rows2, nc2)
              \<and> take ?n ?q @ rows2 = take (2 * ?n) ?q
              \<and> set (take ?n ?q) \<inter> set rows2 = {}"
      using p2 by blast
  qed
  show "\<exists>rows nc. get_timeline tbl pid s e cur limit d = Inr (rows, nc)
     \<and> int (length rows) \<le> limit
     \<and> rows = take (nat limit) ?q
     \<and> sorted_wrt (if d then (>) else (<)) (map row_key rows)
     \<and> (nc \<noteq> None \<longleftrightarrow> limit < int (length ?q))
     \<and> (\<forall>c. nc = Some c \<longrightarrow>
           (\<exists>rows2 nc2. get_timeline tbl pid s e (Some c) limit d = Inr (rows2, nc2)
              \<and> rows @ rows2 = take (2 * nat limit) ?q
              \<and> set rows \<inter> set rows2 = {}))"
    apply (rule exI[of _ "take ?n ?q"])
    apply (rule exI[of _ ?nc])
    using page len srt' nxt by simp
next
  show "length (timeline_query tbl pid s e None d) = 3 \<longrightarrow>
        (\<exists>r1 r2 r3 c1 c2. timeline_query tbl pid s e None d = [r1, r2, r3]
           \<and> distinct [r1, r2, r3]
           \<and> get_timeline tbl pid s e None 1 d = Inr ([r1], Some c1)
           \<and> get_timeline tbl pid s e (Some c1) 1 d = Inr ([r2], Some c2)
           \<and> get_timeline tbl pid s e (Some c2) 1 d = Inr ([r3], None))"
  proof
    let ?q = "timeline_query tbl pid s e None d"
    assume l3: "length ?q = 3"
    then obtain r1 r2 r3 where q: "?q = [r1, r2, r3]"
      by (auto simp: numeral_3_eq_3 length_Suc_conv)
    have srt: "sorted_wrt (if d then (>) else (<)) (map row_key ?q)"
      by (rule timeline_query_sorted[OF dist])
    have d3: "distinct [r1, r2, r3]"
      using srt unfolding q by (cases d) auto
    let ?c1 = "(row_effective_date r1, row_id r1)"
    let ?c2 = "(row_effective_date r2, row_id r2)"
    have p1: "get_timeline tbl pid s e None 1 d = Inr ([r1], Some ?c1)"
      using get_timeline_page[of 1 tbl pid s e None d] q by simp
    have q1: "timeline_query tbl pid s e (Some ?c1) d = [r2, r3]"
      using timeline_query_next[OF dist, of 0 pid s e None d] q by simp
    have p2: "get_timeline tbl pid s e (Some ?c1) 1 d = Inr ([r2], Some ?c2)"
      using get_timeline_page[of 1 tbl pid s e "Some ?c1" d] q1 by simp
    have q2: "timeline_query tbl pid s e (Some ?c2) d = [r3]"
      using timeline_query_next[OF dist, of 1 pid s e None d] q by simp
    have p3: "get_timeline tbl pid s e (Some ?c2) 1 d = Inr ([r3], None)"
      using get_timeline_page[of 1 tbl pid s e "Some ?c2" d] q2 by simp
    from q d3 p1 p2 p3 show "\<exists>r1 r2 r3 c1 c2. timeline_query tbl pid s e None d = [r1, r2, r3]
           \<and> distinct [r1, r2, r3]
           \<and> get_timeline tbl pid s e None 1 d = Inr ([r1], Some c1)
           \<and> get_timeline tbl pid s e (Some c1) 1 d = Inr ([r2], Some c2)
           \<and> get_timeline tbl pid s e (Some c2) 1 d = Inr ([r3], None)"
      by blast
  qed
qed

theorem timeline_pagination_witness:
  "distinct (map row_id example_timeline) \<and> (1::int) \<le> 1
   \<and> length (timeline_query example_timeline 7 None None None True) = 3
   \<and> (\<exists>r1 r2 r3 c1 c2.
         timeline_query example_timeline 7 None None None True = [r1, r2, r3]
       \<and> distinct [r1, r2, r3]
       \<and> get_timeline example_timeline 7 None None None 1 True = Inr ([r1], Some c1)
       \<and> get_timeline example_timeline 7 None None (Some c1) 1 True = Inr ([r2], Some c2)
       \<and> get_timeline example_timeline 7 None None (Some c2) 1 True = Inr ([r3], None))
   \<and> get_timeline example_timeline 7 None None None 1 True
       = Inr ([timeline_row 12 ''b'' (Date 2024 3 16)], Some (Date 2024 3 16, 12))"
proof -
  have d: "distinct (map row_id example_timeline)"
    by (simp add: example_timeline_def timeline_row_def)
  have q: "timeline_query example_timeline 7 None None None True
      = [timeline_row 12 ''b'' (Date 2024 3 16), timeline_row 13 ''c'' (Date 2024 3 15),
         timeline_row 11 ''a'' (Date 2024 3 14)]"
    by (simp add: timeline_query_def example_timeline_def timeline_row_def order_by_def
        date_key_def row_key_def less_eq_prod_def less_prod_def)
  have l: "length (timeline_query example_timeline 7 None None None True) = 3"
    by (simp add: q)
  have p1: "get_timeline example_timeline 7 None None None 1 True
       = Inr ([timeline_row 12 ''b'' (Date 2024 3 16)], Some (Date 2024 3 16, 12))"
    using get_timeline_page [of 1 example_timeline 7 None None None True]
    by (simp add: q timeline_row_def)
  have one: "(1::int) \<le> 1" by simp
  note t = timeline_pagination [OF d one, of 7 None None None True, THEN conjunct2, rule_format, OF l]
  from d l t p1 show ?thesis by blast
qed


section \<open>Float rounding\<close>

lemma tol_value: "STAGE_SUM_TOLERANCE = 4728779608739021 / 4503599627370496"
  by code_simp

lemma rhe_upper: "of_int (round_half_even y) \<le> y + 1 / 2"
  unfolding round_half_even_def Let_def by (auto; linarith)

lemma rhe_lower: "y - 1 / 2 \<le> of_int (round_half_even y)"
  unfolding round_half_even_def Let_def by (auto; linarith)

lemma rhe_ge_int: "of_int m \<le> y \<Longrightarrow> m \<le> round_half_even y"
  unfolding round_half_even_def Let_def by (auto simp: le_floor_iff; linarith)

lemma rhe_le_int: "y \<le> of_int m \<Longrightarrow> round_half_even y \<le> m"
proof -
  assume a: "y \<le> of_int m"
  have f: "\<lfloor>y\<rfloor> \<le> m" using a by (simp add: floor_le_iff)
  show ?thesis
  proof (cases "\<lfloor>y\<rfloor> = m")
    case True
    then have "y = of_int m" using a by (metis floor_less_iff not_less order_antisym less_irrefl of_int_floor_le order.trans)
    then show ?thesis by (simp add: round_half_even_def)
  next
    case False
    with f have "\<lfloor>y\<rfloor> + 1 \<le> m" by simp
    then show ?thesis unfolding round_half_even_def Let_def by auto
  qed
qed


lemma quotient_abs:
  assumes "x \<noteq> 0" "quotient_of \<bar>x\<bar> = (a, b)"
  shows "0 < a" "0 < b" "\<bar>x\<bar> = of_int a / of_int b"
proof -
  show b: "0 < b" using assms(2) by (rule quotient_of_denom_pos)
  show eq: "\<bar>x\<bar> = of_int a / of_int b" using assms(2) by (rule quotient_of_div)
  have "0 < \<bar>x\<bar>" using assms(1) by simp
  then have "0 < (of_int a :: rat) / of_int b" using eq by simp
  then show "0 < a" using b by (simp add: zero_less_divide_iff)
qed

lemma bitlen_rat_bounds:
  assumes "0 < a"
  shows "2 powi (bitlen a - 1) \<le> (of_int a :: rat)" "(of_int a :: rat) < 2 powi (bitlen a)"
proof -
  from bitlen_bounds[OF assms] have lo: "2 ^ nat (bitlen a - 1) \<le> a" and hi: "a < 2 ^ nat (bitlen a)"
    by auto
  have b1: "1 \<le> bitlen a" using assms bitlen_eq_zero_iff[of a] bitlen_nonneg[of a] by linarith
  have "(2::rat) powi (bitlen a - 1) = 2 ^ nat (bitlen a - 1)" using b1 by (simp add: power_int_def)
  also have "\<dots> = of_int (2 ^ nat (bitlen a - 1))" by simp
  also have "\<dots> \<le> of_int a" using lo by (simp only: of_int_le_iff)
  finally show "2 powi (bitlen a - 1) \<le> (of_int a :: rat)" .
  have "(of_int a :: rat) < of_int (2 ^ nat (bitlen a))" using hi by (simp only: of_int_less_iff)
  also have "\<dots> = 2 ^ nat (bitlen a)" by simp
  also have "\<dots> = 2 powi (bitlen a)" using b1 by (simp add: power_int_def)
  finally show "(of_int a :: rat) < 2 powi (bitlen a)" .
qed

lemma binade_bounds:
  assumes "x \<noteq> 0"
  shows "2 powi (binade x) \<le> \<bar>x\<bar>" "\<bar>x\<bar> < 2 powi (binade x + 1)"
proof -
  obtain a b where q: "quotient_of \<bar>x\<bar> = (a, b)" by (cases "quotient_of \<bar>x\<bar>")
  note ab = quotient_abs[OF assms q]
  let ?e0 = "bitlen a - bitlen b"
  have bd: "binade x = (if 2 powi ?e0 \<le> \<bar>x\<bar> then ?e0 else ?e0 - 1)"
    by (simp add: binade_def q)
  have pa: "2 powi (bitlen a - 1) \<le> (of_int a :: rat)" "(of_int a :: rat) < 2 powi (bitlen a)"
    using bitlen_rat_bounds[OF ab(1)] by auto
  have pb: "2 powi (bitlen b - 1) \<le> (of_int b :: rat)" "(of_int b :: rat) < 2 powi (bitlen b)"
    using bitlen_rat_bounds[OF ab(2)] by auto
  have bpos: "(0::rat) < of_int b" using ab(2) by simp
  have p2pos: "\<And>k. (0::rat) < 2 powi k" by (simp add: zero_less_power_int)
  have up: "\<bar>x\<bar> < 2 powi (?e0 + 1)"
  proof -
    have "\<bar>x\<bar> * of_int b = of_int a" using ab(3) bpos by simp
    have "of_int a < (2::rat) powi (bitlen a)" by (rule pa(2))
    also have "\<dots> = 2 powi (?e0 + 1) * 2 powi (bitlen b - 1)"
      by (simp add: power_int_add[symmetric])
    also have "\<dots> \<le> 2 powi (?e0 + 1) * of_int b"
      using pb(1) p2pos[of "?e0 + 1"] by (simp add: mult_left_mono)
    finally have "of_int a / of_int b < (2::rat) powi (?e0 + 1)"
      using bpos by (simp add: pos_divide_less_eq)
    then show ?thesis using ab(3) by simp
  qed
  have lo: "2 powi (?e0 - 1) < \<bar>x\<bar>"
  proof -
    have "(2::rat) powi (?e0 - 1) * of_int b < 2 powi (?e0 - 1) * 2 powi (bitlen b)"
      using pb(2) p2pos[of "?e0 - 1"] by (simp add: mult_strict_left_mono)
    also have "\<dots> = 2 powi (bitlen a - 1)" by (simp add: power_int_add[symmetric])
    also have "\<dots> \<le> of_int a" by (rule pa(1))
    finally have "(2::rat) powi (?e0 - 1) < of_int a / of_int b"
      using bpos by (simp add: pos_less_divide_eq)
    then show ?thesis using ab(3) by simp
  qed
  show "2 powi (binade x) \<le> \<bar>x\<bar>" using bd lo by (auto split: if_splits)
  show "\<bar>x\<bar> < 2 powi (binade x + 1)" using bd up by (auto split: if_splits)
qed


lemma binade_less:
  assumes "x \<noteq> 0" "\<bar>x\<bar> < 2 powi k"
  shows "binade x < k"
proof (rule ccontr)
  assume "\<not> binade x < k"
  then have "k \<le> binade x" by simp
  then have "(2::rat) powi k \<le> 2 powi (binade x)" by (intro power_int_increasing) auto
  also have "\<dots> \<le> \<bar>x\<bar>" by (rule binade_bounds(1)[OF assms(1)])
  finally show False using assms(2) by simp
qed

lemma binade_ge:
  assumes "x \<noteq> 0" "2 powi k \<le> \<bar>x\<bar>"
  shows "k \<le> binade x"
proof (rule ccontr)
  assume "\<not> k \<le> binade x"
  then have "binade x + 1 \<le> k" by simp
  then have "(2::rat) powi (binade x + 1) \<le> 2 powi k" by (intro power_int_increasing) auto
  also have "\<dots> \<le> \<bar>x\<bar>" by (rule assms(2))
  finally show False using binade_bounds(2)[OF assms(1)] by simp
qed

lemma nearest_double_scaled:
  assumes "x \<noteq> 0" "binade x \<le> 52"
  shows "nearest_double x
           = of_int (round_half_even (x * 2 ^ nat (52 - binade x))) / 2 ^ nat (52 - binade x)"
proof -
  have "binade x - 52 = - int (nat (52 - binade x))" using assms(2) by simp
  then have "(2::rat) powi (binade x - 52) = 2 powi (- int (nat (52 - binade x)))" by simp
  also have "\<dots> = 1 / 2 ^ nat (52 - binade x)"
    by (simp only: power_int_minus_divide power_int_of_nat)
  finally have "(2::rat) powi (binade x - 52) = 1 / 2 ^ nat (52 - binade x)" .
  then show ?thesis using assms(1) by (simp add: nearest_double_def Let_def)
qed

lemma nearest_double_ge_int:
  assumes "x \<noteq> 0" "binade x \<le> 52" "of_int s \<le> x"
  shows "of_int s \<le> nearest_double x"
proof -
  let ?K = "(2::rat) ^ nat (52 - binade x)"
  have K: "0 < ?K" by simp
  have "of_int (s * 2 ^ nat (52 - binade x)) \<le> x * ?K"
    using assms(3) K by (simp add: mult_right_mono)
  then have "s * 2 ^ nat (52 - binade x) \<le> round_half_even (x * ?K)" by (rule rhe_ge_int)
  then have "(of_int (s * 2 ^ nat (52 - binade x)) :: rat) \<le> of_int (round_half_even (x * ?K))"
    by (simp only: of_int_le_iff)
  then have "of_int s * ?K \<le> of_int (round_half_even (x * ?K))" by simp
  then have "of_int s \<le> of_int (round_half_even (x * ?K)) / ?K"
    using K by (simp add: pos_le_divide_eq)
  then show ?thesis using nearest_double_scaled[OF assms(1,2)] by simp
qed

lemma nearest_double_le_int:
  assumes "x \<noteq> 0" "binade x \<le> 52" "x \<le> of_int s"
  shows "nearest_double x \<le> of_int s"
proof -
  let ?K = "(2::rat) ^ nat (52 - binade x)"
  have K: "0 < ?K" by simp
  have "x * ?K \<le> of_int (s * 2 ^ nat (52 - binade x))"
    using assms(3) K by (simp add: mult_right_mono)
  then have "round_half_even (x * ?K) \<le> s * 2 ^ nat (52 - binade x)" by (rule rhe_le_int)
  then have "(of_int (round_half_even (x * ?K)) :: rat) \<le> of_int (s * 2 ^ nat (52 - binade x))"
    by (simp only: of_int_le_iff)
  then have "of_int (round_half_even (x * ?K)) \<le> of_int s * ?K" by simp
  then have "of_int (round_half_even (x * ?K)) / ?K \<le> of_int s"
    using K by (simp add: pos_divide_le_eq)
  then show ?thesis using nearest_double_scaled[OF assms(1,2)] by simp
qed

lemma nearest_double_upper:
  assumes "x \<noteq> 0" "binade x \<le> 52"
  shows "nearest_double x \<le> x + 1 / (2 * 2 ^ nat (52 - binade x))"
proof -
  let ?K = "(2::rat) ^ nat (52 - binade x)"
  have K: "0 < ?K" by simp
  have "of_int (round_half_even (x * ?K)) \<le> x * ?K + 1 / 2" by (rule rhe_upper)
  then have "of_int (round_half_even (x * ?K)) / ?K \<le> (x * ?K + 1 / 2) / ?K"
    using K by (simp add: divide_right_mono)
  also have "\<dots> = x + 1 / (2 * ?K)" using K by (simp add: field_simps)
  finally show ?thesis using nearest_double_scaled[OF assms] by simp
qed

lemma float_of_int_exact:
  assumes "\<bar>t\<bar> < 2 ^ 53"
  shows "float_of_int t = of_int t"
proof (cases "t = 0")
  case True
  then show ?thesis by (simp add: float_of_int_def nearest_double_def)
next
  case False
  then have nz: "(of_int t :: rat) \<noteq> 0" by simp
  have "\<bar>of_int t :: rat\<bar> = of_int \<bar>t\<bar>" by simp
  also have "\<dots> < of_int (2 ^ 53)" using assms by (simp only: of_int_less_iff)
  also have "\<dots> = 2 powi 53" by simp
  finally have "binade (of_int t) < 53" by (rule binade_less[OF nz])
  then have b: "binade (of_int t :: rat) \<le> 52" by simp
  have "of_int t \<le> nearest_double (of_int t)" by (rule nearest_double_ge_int[OF nz b]) simp
  moreover have "nearest_double (of_int t) \<le> of_int t" by (rule nearest_double_le_int[OF nz b]) simp
  ultimately show ?thesis by (simp add: float_of_int_def)
qed

lemma rule4_boundary:
  assumes "0 \<le> t" "t < 2 ^ 40"
  shows "(of_int s > float_mul (float_of_int t) STAGE_SUM_TOLERANCE) \<longleftrightarrow> 20 * s > 21 * t"
proof (cases "t = 0")
  case True
  then show ?thesis by (simp add: float_mul_def float_of_int_def nearest_double_def)
next
  case False
  with assms have tpos: "1 \<le> t" by simp
  let ?x = "of_int t * STAGE_SUM_TOLERANCE :: rat"
  have ex: "float_of_int t = of_int t" using assms by (intro float_of_int_exact) simp
  have fm: "float_mul (float_of_int t) STAGE_SUM_TOLERANCE = nearest_double ?x"
    by (simp add: float_mul_def ex)
  have x20: "20 * ?x = 21 * of_int t + of_int t / 1125899906842624"
    by (simp add: tol_value field_simps)
  have "(of_int t :: rat) < of_int (2 ^ 40)" using assms(2) by (simp only: of_int_less_iff)
  then have tr1: "(of_int t :: rat) < 1099511627776" by simp
  have "(of_int 1 :: rat) \<le> of_int t" using tpos by (simp only: of_int_le_iff)
  then have tr2: "(1::rat) \<le> of_int t" by simp
  note tr = tr1 tr2
  have xlo: "1 \<le> ?x" using x20 tr by linarith
  have p41: "(2::rat) powi 41 = 2199023255552" by simp
  have "?x < 2199023255552" using x20 tr by linarith
  then have xhi: "?x < 2 powi 41" by (simp only: p41)
  have nz: "?x \<noteq> 0" using xlo by linarith
  have "\<bar>?x\<bar> = ?x" using xlo by linarith
  then have "\<bar>?x\<bar> < 2 powi 41" using xhi by (simp only:)
  then have "binade ?x < 41" by (rule binade_less[OF nz])
  then have b40: "binade ?x \<le> 40" by simp
  then have b52: "binade ?x \<le> 52" by simp
  have K: "(2::rat) ^ 12 \<le> 2 ^ nat (52 - binade ?x)"
    using b40 by (intro power_increasing) auto
  have errb: "1 / (2 * (2::rat) ^ nat (52 - binade ?x)) \<le> 1 / 8192"
    using K by (simp add: field_simps)
  show ?thesis
  proof
    assume gt: "of_int s > float_mul (float_of_int t) STAGE_SUM_TOLERANCE"
    show "20 * s > 21 * t"
    proof (rule ccontr)
      assume "\<not> 20 * s > 21 * t"
      then have "20 * s \<le> 21 * t" by simp
      then have "(of_int (20 * s) :: rat) \<le> of_int (21 * t)" by (simp only: of_int_le_iff)
      then have "20 * (of_int s :: rat) \<le> 21 * of_int t" by simp
      then have "(of_int s :: rat) \<le> ?x" using x20 tr by linarith
      then have "of_int s \<le> nearest_double ?x" by (rule nearest_double_ge_int[OF nz b52])
      then show False using gt fm by simp
    qed
  next
    assume "20 * s > 21 * t"
    then have "21 * t + 1 \<le> 20 * s" by simp
    then have "(of_int (21 * t + 1) :: rat) \<le> of_int (20 * s)" by (simp only: of_int_le_iff)
    then have s: "21 * of_int t + 1 \<le> 20 * (of_int s :: rat)" by simp
    have "nearest_double ?x \<le> ?x + 1 / (2 * 2 ^ nat (52 - binade ?x))"
      by (rule nearest_double_upper[OF nz b52])
    also have "\<dots> \<le> ?x + 1 / 8192" using errb by linarith
    finally have "20 * nearest_double ?x \<le> 20 * ?x + 20 / 8192" by linarith
    also have "\<dots> < 21 * of_int t + 1" using x20 tr by linarith
    also have "\<dots> \<le> 20 * of_int s" by (rule s)
    finally show "of_int s > float_mul (float_of_int t) STAGE_SUM_TOLERANCE"
      using fm by simp
  qed
qed


lemma stage_reason_iff:
  "''stage_sum_exceeds_total'' \<in> err_reason ` set (validate_sleep_record today r)
     \<longleftrightarrow> rule_stage_sum r \<noteq> []"
  by (auto simp: validate_sleep_record_def rule_stage_def rule_timezone_def mk_error_def
      rule_stage_sum_def split: option.splits if_splits)


section \<open>Validation rule 4\<close>

text \<open>
  C5, as amended. Rule 4 is not evaluated when the total is absent. For a total from 0
  up to \<open>2 ^ 40\<close> minutes the rule reports \<open>stage_sum_exceeds_total\<close> exactly when the
  stage sum exceeds 105% of the total: a stage sum equal to the total passes, a stage
  sum at exactly 105% passes, and, when the total is positive, a stage sum at 105.1%
  is a violation.
\<close>

theorem stage_sum_rule_boundary:
  "(rec_total_sleep_minutes r = None \<longrightarrow>
      ''stage_sum_exceeds_total'' \<notin> err_reason ` set (validate_sleep_record today r))
   \<and> (\<forall>t. rec_total_sleep_minutes r = Some t \<and> 0 \<le> t \<and> t < 2 ^ 40 \<longrightarrow>
        (''stage_sum_exceeds_total'' \<in> err_reason ` set (validate_sleep_record today r)
           \<longleftrightarrow> 20 * stage_sum r > 21 * t)
      \<and> (stage_sum r = t \<longrightarrow>
           ''stage_sum_exceeds_total'' \<notin> err_reason ` set (validate_sleep_record today r))
      \<and> (20 * stage_sum r = 21 * t \<longrightarrow>
           ''stage_sum_exceeds_total'' \<notin> err_reason ` set (validate_sleep_record today r))
      \<and> (0 < t \<and> 1000 * stage_sum r = 1051 * t \<longrightarrow>
           ''stage_sum_exceeds_total'' \<in> err_reason ` set (validate_sleep_record today r)))"
proof (intro conjI allI impI)
  assume "rec_total_sleep_minutes r = None"
  then show "''stage_sum_exceeds_total'' \<notin> err_reason ` set (validate_sleep_record today r)"
    by (simp add: stage_reason_iff rule_stage_sum_def)
next
  fix t
  assume a: "rec_total_sleep_minutes r = Some t \<and> 0 \<le> t \<and> t < 2 ^ 40"
  then have iff: "''stage_sum_exceeds_total'' \<in> err_reason ` set (validate_sleep_record today r)
           \<longleftrightarrow> 20 * stage_sum r > 21 * t"
    using rule4_boundary [of t "stage_sum r"]
    by (simp add: stage_reason_iff rule_stage_sum_def)
  show "''stage_sum_exceeds_total'' \<in> err_reason ` set (validate_sleep_record today r)
           \<longleftrightarrow> 20 * stage_sum r > 21 * t"
    by (rule iff)
  show "''stage_sum_exceeds_total'' \<notin> err_reason ` set (validate_sleep_record today r)"
    if "stage_sum r = t"
    using iff a that by simp
  show "''stage_sum_exceeds_total'' \<notin> err_reason ` set (validate_sleep_record today r)"
    if "20 * stage_sum r = 21 * t"
    using iff that by simp
  show "''stage_sum_exceeds_total'' \<in> err_reason ` set (validate_sleep_record today r)"
    if "0 < t \<and> 1000 * stage_sum r = 1051 * t"
    using iff that by simp
qed

theorem stage_sum_rule_boundary_witness:
  "''stage_sum_exceeds_total''
      \<notin> err_reason ` set (validate_sleep_record (Date 2024 3 20) valid_sleep_record)
   \<and> ''stage_sum_exceeds_total''
      \<notin> err_reason ` set (validate_sleep_record (Date 2024 3 20)
            (valid_sleep_record\<lparr>rec_awake_minutes := Some 84\<rparr>))
   \<and> ''stage_sum_exceeds_total''
      \<in> err_reason ` set (validate_sleep_record (Date 2024 3 20)
            (valid_sleep_record\<lparr>rec_total_sleep_minutes := Some 1000,
                                 rec_awake_minutes := Some 631\<rparr>))
   \<and> ''stage_sum_exceeds_total''
      \<notin> err_reason ` set (validate_sleep_record (Date 2024 3 20)
            (valid_sleep_record\<lparr>rec_total_sleep_minutes := None\<rparr>))"
proof -
  have v: "rec_total_sleep_minutes valid_sleep_record = Some 480"
      "stage_sum valid_sleep_record = 480"
      "stage_sum (valid_sleep_record\<lparr>rec_awake_minutes := Some 84\<rparr>) = 504"
      "stage_sum (valid_sleep_record\<lparr>rec_total_sleep_minutes := Some 1000,
                                 rec_awake_minutes := Some 631\<rparr>) = 1051"
    by (simp_all add: valid_sleep_record_def stage_sum_def stage_or_zero_def)
  note t1 = stage_sum_rule_boundary [of valid_sleep_record "Date 2024 3 20",
      THEN conjunct2, rule_format, of 480]
  note t2 = stage_sum_rule_boundary [of "valid_sleep_record\<lparr>rec_awake_minutes := Some 84\<rparr>"
      "Date 2024 3 20", THEN conjunct2, rule_format, of 480]
  note t3 = stage_sum_rule_boundary [of "valid_sleep_record\<lparr>rec_total_sleep_minutes := Some 1000,
      rec_awake_minutes := Some 631\<rparr>" "Date 2024 3 20", THEN conjunct2, rule_format, of 1000]
  note t4 = stage_sum_rule_boundary [of "valid_sleep_record\<lparr>rec_total_sleep_minutes := None\<rparr>"
      "Date 2024 3 20", THEN conjunct1]
  have w1: "''stage_sum_exceeds_total''
      \<notin> err_reason ` set (validate_sleep_record (Date 2024 3 20) valid_sleep_record)"
    using t1 v by simp
  have w2: "''stage_sum_exceeds_total''
      \<notin> err_reason ` set (validate_sleep_record (Date 2024 3 20)
            (valid_sleep_record\<lparr>rec_awake_minutes := Some 84\<rparr>))"
    using t2 v by simp
  have w3: "''stage_sum_exceeds_total''
      \<in> err_reason ` set (validate_sleep_record (Date 2024 3 20)
            (valid_sleep_record\<lparr>rec_total_sleep_minutes := Some 1000,
                                 rec_awake_minutes := Some 631\<rparr>))"
    using t3 v by simp
  have w4: "''stage_sum_exceeds_total''
      \<notin> err_reason ` set (validate_sleep_record (Date 2024 3 20)
            (valid_sleep_record\<lparr>rec_total_sleep_minutes := None\<rparr>))"
    using t4 by simp
  from w1 w2 w3 w4 show ?thesis by blast
qed

text \<open>
  The claim as stated, for every record with a total, fails at three records: with a
  total of zero and no stages the stage sum is at 105.1% of the total (both are zero)
  and nothing is reported; with a total of -100 and one stage of -100 the stage sum
  equals the total and is reported; with a total of 17967704436040820 the stage sum
  18866089657842861 is exactly 105% of it and is reported, since the float product is
  rounded to an even integer below.
\<close>

theorem stage_sum_rule_counterexample:
  "rec_total_sleep_minutes zero_total_record = Some 0
   \<and> 1000 * stage_sum zero_total_record = 1051 * 0
   \<and> ''stage_sum_exceeds_total''
        \<notin> err_reason ` set (validate_sleep_record (Date 2024 3 20) zero_total_record)
   \<and> rec_total_sleep_minutes negative_total_record = Some (- 100)
   \<and> stage_sum negative_total_record = - 100
   \<and> ''stage_sum_exceeds_total''
        \<in> err_reason ` set (validate_sleep_record (Date 2024 3 20) negative_total_record)
   \<and> rec_total_sleep_minutes huge_total_record = Some 17967704436040820
   \<and> 20 * stage_sum huge_total_record = 21 * 17967704436040820
   \<and> ''stage_sum_exceeds_total''
        \<in> err_reason ` set (validate_sleep_record (Date 2024 3 20) huge_total_record)"
proof -
  have z: "rule_stage_sum zero_total_record = []" by code_simp
  have n: "rule_stage_sum negative_total_record \<noteq> []" by code_simp
  have h: "rule_stage_sum huge_total_record \<noteq> []" by code_simp
  have f: "rec_total_sleep_minutes zero_total_record = Some 0"
      "1000 * stage_sum zero_total_record = 1051 * 0"
      "rec_total_sleep_minutes negative_total_record = Some (- 100)"
      "stage_sum negative_total_record = - 100"
      "rec_total_sleep_minutes huge_total_record = Some 17967704436040820"
      "20 * stage_sum huge_total_record = 21 * 17967704436040820"
    by (simp_all add: zero_total_record_def negative_total_record_def huge_total_record_def
        valid_sleep_record_def stage_sum_def stage_or_zero_def)
  from z n h f show ?thesis by (simp add: stage_reason_iff)
qed


section \<open>Fingerprints\<close>

lemma dec4:
  assumes "(n::nat) < 10000"
  shows "n = 1000 * ((n div 1000) mod 10) + 100 * ((n div 100) mod 10)
             + 10 * ((n div 10) mod 10) + n mod 10"
proof -
  define q1 where "q1 = n div 10"
  define q2 where "q2 = q1 div 10"
  define q3 where "q3 = q2 div 10"
  define r0 where "r0 = n mod 10"
  define r1 where "r1 = q1 mod 10"
  define r2 where "r2 = q2 mod 10"
  have e1: "n = 10 * q1 + r0" unfolding q1_def r0_def by (rule mult_div_mod_eq[symmetric])
  have e2: "q1 = 10 * q2 + r1" unfolding q2_def r1_def by (rule mult_div_mod_eq[symmetric])
  have e3: "q2 = 10 * q3 + r2" unfolding q3_def r2_def by (rule mult_div_mod_eq[symmetric])
  have n100: "(10::nat) * 10 = 100" and n1000: "(100::nat) * 10 = 1000" by simp_all
  have d2: "q2 = n div 100" unfolding q2_def q1_def by (simp only: div_mult2_eq[symmetric] n100)
  have d3: "q3 = n div 1000" unfolding q3_def d2 by (simp only: div_mult2_eq[symmetric] n1000)
  have "n < 10 * 1000" using assms by simp
  then have "q3 < 10" unfolding d3 by (simp only: less_mult_imp_div_less)
  then have m3: "q3 mod 10 = q3" by (rule mod_less)
  have "n = 1000 * q3 + 100 * r2 + 10 * r1 + r0" using e1 e2 e3 by linarith
  then have "n = 1000 * (q3 mod 10) + 100 * (q2 mod 10) + 10 * (q1 mod 10) + n mod 10"
    by (simp only: m3 r2_def r1_def r0_def)
  then show ?thesis by (simp only: d3 d2 q1_def)
qed


lemma dec2:
  assumes "(n::nat) < 100"
  shows "n = 10 * ((n div 10) mod 10) + n mod 10"
proof -
  have "n < 10 * 10" using assms by simp
  then have "n div 10 < 10" by (simp only: less_mult_imp_div_less)
  then have "(n div 10) mod 10 = n div 10" by (rule mod_less)
  then show ?thesis by (simp only: mult_div_mod_eq)
qed

lemma hex_char_in: "hex_char n \<in> set ''0123456789abcdef''"
proof -
  have "nat (n mod 16) < length ''0123456789abcdef''" by simp
  then show ?thesis unfolding hex_char_def by (rule nth_mem)
qed

lemma hex32_props: "length (hex32 w) = 8" "set (hex32 w) \<subseteq> set ''0123456789abcdef''"
proof -
  show "length (hex32 w) = 8" by (simp add: hex32_def)
  show "set (hex32 w) \<subseteq> set ''0123456789abcdef''"
    unfolding hex32_def set_map using hex_char_in by blast
qed

lemma hexdigest_props:
  "length (hexdigest s) = 64" "set (hexdigest s) \<subseteq> set ''0123456789abcdef''"
proof -
  obtain a b c d e f g h where s: "s = (a, b, c, d, e, f, g, h)"
    by (metis surj_pair)
  show "length (hexdigest s) = 64" by (simp add: s hexdigest_def hex32_props(1))
  show "set (hexdigest s) \<subseteq> set ''0123456789abcdef''"
    unfolding s hexdigest_def prod.case set_append using hex32_props(2) by blast
qed

lemma fingerprint_format:
  "length (compute_fingerprint s i d) = 64"
  "set (compute_fingerprint s i d) \<subseteq> set ''0123456789abcdef''"
  unfolding compute_fingerprint_def sha256_hex_def by (rule hexdigest_props)+

lemma digit_char_inj:
  assumes "digit_char a = digit_char b"
  shows "a mod 10 = b mod 10"
proof -
  have d: "distinct ''0123456789''" by simp
  have "a mod 10 < length ''0123456789''" "b mod 10 < length ''0123456789''" by simp_all
  with d assms show ?thesis unfolding digit_char_def by (simp only: nth_eq_iff_index_eq)
qed

lemma two_digits_inj:
  assumes "two_digits a = two_digits b" "a < 100" "b < 100"
  shows "a = b"
proof -
  from assms(1) have e: "(a div 10) mod 10 = (b div 10) mod 10" "a mod 10 = b mod 10"
    by (auto simp: two_digits_def dest: digit_char_inj)
  have "a = 10 * ((a div 10) mod 10) + a mod 10" by (rule dec2[OF assms(2)])
  also have "\<dots> = 10 * ((b div 10) mod 10) + b mod 10" by (simp only: e)
  also have "\<dots> = b" by (rule dec2[OF assms(3), symmetric])
  finally show ?thesis .
qed

lemma four_digits_inj:
  assumes "four_digits a = four_digits b" "a < 10000" "b < 10000"
  shows "a = b"
proof -
  from assms(1) have e: "(a div 1000) mod 10 = (b div 1000) mod 10"
    "(a div 100) mod 10 = (b div 100) mod 10"
    "(a div 10) mod 10 = (b div 10) mod 10" "a mod 10 = b mod 10"
    by (auto simp: four_digits_def dest: digit_char_inj)
  have "a = 1000 * ((a div 1000) mod 10) + 100 * ((a div 100) mod 10)
             + 10 * ((a div 10) mod 10) + a mod 10" by (rule dec4[OF assms(2)])
  also have "\<dots> = 1000 * ((b div 1000) mod 10) + 100 * ((b div 100) mod 10)
             + 10 * ((b div 10) mod 10) + b mod 10" by (simp only: e)
  also have "\<dots> = b" by (rule dec4[OF assms(3), symmetric])
  finally show ?thesis .
qed

lemma isoformat_length: "length (isoformat d) = 10"
  by (simp add: isoformat_def four_digits_def two_digits_def)

lemma valid_date_bounds:
  assumes "valid_date d"
  shows "year d < 10000" "month d < 100" "day d < 100"
proof -
  from assms show "year d < 10000" "month d < 100" by (simp_all add: valid_date_def)
  have "days_in_month (year d) (month d) \<le> 31" by (simp add: days_in_month_def)
  with assms show "day d < 100" by (simp add: valid_date_def)
qed

lemma isoformat_inj:
  assumes "isoformat d = isoformat d'" "valid_date d" "valid_date d'"
  shows "d = d'"
proof -
  from assms(1) have "four_digits (year d) = four_digits (year d')"
    "two_digits (month d) = two_digits (month d')" "two_digits (day d) = two_digits (day d')"
    by (simp_all add: isoformat_def four_digits_def two_digits_def)
  with valid_date_bounds[OF assms(2)] valid_date_bounds[OF assms(3)]
  have "year d = year d'" "month d = month d'" "day d = day d'"
    by (auto intro: four_digits_inj two_digits_inj)
  then show ?thesis by (simp add: date.expand)
qed

lemma fingerprint_raw_inj:
  assumes "fingerprint_raw s i d = fingerprint_raw s' i' d'" "valid_date d" "valid_date d'"
  shows "s = s' \<and> i = i' \<and> d = d'"
proof -
  let ?p = "source_value s @ '':'' @ i @ '':''" and ?p' = "source_value s' @ '':'' @ i' @ '':''"
  have e: "?p @ isoformat d = ?p' @ isoformat d'"
    using assms(1) by (simp add: fingerprint_raw_def)
  have l: "length (isoformat d) = length (isoformat d')" by (simp add: isoformat_length)
  from e l have both: "?p = ?p' \<and> isoformat d = isoformat d'"
    using append_eq_append_conv[of ?p ?p' "isoformat d" "isoformat d'"] by blast
  then have dd: "d = d'" using isoformat_inj[OF _ assms(2,3)] by blast
  from both have "s = s' \<and> i = i'" by (cases s; cases s') simp_all
  with dd show ?thesis by simp
qed


text \<open>
  C6, as amended. The fingerprint is a function of source, source record id and
  effective date: a string of 64 lowercase hexadecimal digits, the SHA-256 of
  \<open>source:source_record_id:effective_date\<close>. The hashed string is injective in the three
  inputs (for dates that exist), so the fingerprints of two distinct triples differ
  unless SHA-256 collides on their two distinct strings.
\<close>

theorem fingerprint_properties:
  "length (compute_fingerprint s i d) = 64
   \<and> set (compute_fingerprint s i d) \<subseteq> set ''0123456789abcdef''
   \<and> compute_fingerprint s i d = sha256_hex (fingerprint_raw s i d)
   \<and> ((s, i, d) = (s', i', d') \<longrightarrow> compute_fingerprint s i d = compute_fingerprint s' i' d')
   \<and> (valid_date d \<and> valid_date d' \<and> (s, i, d) \<noteq> (s', i', d') \<longrightarrow>
        fingerprint_raw s i d \<noteq> fingerprint_raw s' i' d'
        \<and> (compute_fingerprint s i d = compute_fingerprint s' i' d' \<longrightarrow>
             sha256_hex (fingerprint_raw s i d) = sha256_hex (fingerprint_raw s' i' d')))"
proof (intro conjI impI)
  show "length (compute_fingerprint s i d) = 64" by (rule fingerprint_format(1))
  show "set (compute_fingerprint s i d) \<subseteq> set ''0123456789abcdef''"
    by (rule fingerprint_format(2))
  show "compute_fingerprint s i d = sha256_hex (fingerprint_raw s i d)"
    by (simp add: compute_fingerprint_def)
  show "compute_fingerprint s i d = compute_fingerprint s' i' d'" if "(s, i, d) = (s', i', d')"
    using that by simp
  show "fingerprint_raw s i d \<noteq> fingerprint_raw s' i' d'"
    if "valid_date d \<and> valid_date d' \<and> (s, i, d) \<noteq> (s', i', d')"
    using that fingerprint_raw_inj [of s i d s' i' d'] by blast
  show "sha256_hex (fingerprint_raw s i d) = sha256_hex (fingerprint_raw s' i' d')"
    if "compute_fingerprint s i d = compute_fingerprint s' i' d'"
    using that by (simp add: compute_fingerprint_def)
qed

theorem fingerprint_properties_witness:
  "valid_date (Date 2024 3 14) \<and> valid_date (Date 2024 3 15)
   \<and> (OURA, ''x'', Date 2024 3 14) \<noteq> (OURA, ''x'', Date 2024 3 15)
   \<and> fingerprint_raw OURA ''x'' (Date 2024 3 14) \<noteq> fingerprint_raw OURA ''x'' (Date 2024 3 15)
   \<and> length (compute_fingerprint OURA ''x'' (Date 2024 3 14)) = 64"
proof -
  have v: "valid_date (Date 2024 3 14)" "valid_date (Date 2024 3 15)"
    by (simp_all add: valid_date_def days_in_month_def)
  have n: "(OURA, ''x'', Date 2024 3 14) \<noteq> (OURA, ''x'', Date 2024 3 15)" by simp
  from fingerprint_properties [of OURA "''x''" "Date 2024 3 14" OURA "''x''" "Date 2024 3 15"] v n
  show ?thesis by blast
qed

text \<open>
  Injectivity itself fails: for one source and date, infinitely many record ids are
  mapped into the finite set of 64-digit strings, so two of them share a fingerprint.
\<close>

theorem fingerprint_not_injective: "\<not> inj (fingerprint_of_id OURA (Date 2024 3 14))"
proof
  assume inj: "inj (fingerprint_of_id OURA (Date 2024 3 14))"
  let ?H = "{xs. set xs \<subseteq> set ''0123456789abcdef'' \<and> length xs = 64}"
  have fin: "finite ?H" by (rule finite_lists_length_eq) (rule finite_set)
  have "range (fingerprint_of_id OURA (Date 2024 3 14)) \<subseteq> ?H"
  proof
    fix x assume "x \<in> range (fingerprint_of_id OURA (Date 2024 3 14))"
    then obtain i where "x = compute_fingerprint OURA i (Date 2024 3 14)"
      by (auto simp: fingerprint_of_id_def)
    then show "x \<in> ?H" using fingerprint_format[of OURA i "Date 2024 3 14"]
      by (simp only: mem_Collect_eq)
  qed
  then have "finite (range (fingerprint_of_id OURA (Date 2024 3 14)))"
    using fin by (rule finite_subset)
  then have "finite (UNIV :: string set)" using inj by (rule finite_imageD)
  then show False using infinite_UNIV_listI by blast
qed


section \<open>Unit conversion in the mappers\<close>

lemma nearest_double_lower:
  assumes "x \<noteq> 0" "binade x \<le> 52"
  shows "x - 1 / (2 * 2 ^ nat (52 - binade x)) \<le> nearest_double x"
proof -
  let ?K = "(2::rat) ^ nat (52 - binade x)"
  have K: "0 < ?K" by simp
  have "x * ?K - 1 / 2 \<le> of_int (round_half_even (x * ?K))" by (rule rhe_lower)
  then have "(x * ?K - 1 / 2) / ?K \<le> of_int (round_half_even (x * ?K)) / ?K"
    using K by (simp add: divide_right_mono)
  moreover have "(x * ?K - 1 / 2) / ?K = x - 1 / (2 * ?K)" using K by (simp add: field_simps)
  ultimately show ?thesis using nearest_double_scaled[OF assms] by simp
qed

lemma rhe_near_int:
  assumes "\<bar>z - of_int m\<bar> < 1 / 2"
  shows "round_half_even z = m"
proof -
  have u: "of_int (round_half_even z) \<le> z + 1 / 2" by (rule rhe_upper)
  have l: "z - 1 / 2 \<le> of_int (round_half_even z)" by (rule rhe_lower)
  from assms u l have "\<bar>(of_int (round_half_even z) :: rat) - of_int m\<bar> < 1" by linarith
  then have "\<bar>of_int (round_half_even z - m) :: rat\<bar> < 1" by simp
  then have "\<bar>round_half_even z - m\<bar> < 1"
    by (metis of_int_abs of_int_less_iff of_int_1)
  then show ?thesis by linarith
qed

lemma pct_to_ratio_percent:
  assumes "0 \<le> p" "p \<le> 100"
  shows "pct_to_ratio (Some p) = Some (nearest_double (of_int p / 100))"
    and "0 \<le> nearest_double (of_int p / 100)" and "nearest_double (of_int p / 100) \<le> 1"
proof -
  let ?x = "of_int p / 100 :: rat"
  have ex: "float_of_int p = of_int p" using assms by (intro float_of_int_exact) simp
  have pr: "(0::rat) \<le> of_int p" "(of_int p :: rat) \<le> 100"
    using assms by simp_all
  have main: "py_round4 (nearest_double ?x) = nearest_double ?x
      \<and> 0 \<le> nearest_double ?x \<and> nearest_double ?x \<le> 1"
  proof (cases "p = 0")
    case True
    then show ?thesis by (simp add: py_round4_def nearest_double_def round_half_even_def)
  next
    case False
    with assms have "1 \<le> p" by simp
    then have p1: "(1::rat) \<le> of_int p" by simp
    have nz: "?x \<noteq> 0" using p1 by simp
    have ax: "\<bar>?x\<bar> = ?x" using p1 by simp
    have "?x < 2" using pr by simp
    then have "\<bar>?x\<bar> < 2 powi 1" using ax by simp
    then have b: "binade ?x < 1" by (rule binade_less[OF nz])
    then have b52: "binade ?x \<le> 52" by simp
    have "(2::rat) ^ 52 \<le> 2 ^ nat (52 - binade ?x)"
      using b by (intro power_increasing) auto
    then have errb: "1 / (2 * (2::rat) ^ nat (52 - binade ?x)) \<le> 1 / 9007199254740992"
      by (simp add: field_simps)
    have up: "nearest_double ?x \<le> ?x + 1 / 9007199254740992"
      using nearest_double_upper[OF nz b52] errb by linarith
    have lo: "?x - 1 / 9007199254740992 \<le> nearest_double ?x"
      using nearest_double_lower[OF nz b52] errb by linarith
    have "(of_int (100 * p) :: rat) = 10000 * ?x" by simp
    then have "\<bar>nearest_double ?x * 10000 - of_int (100 * p)\<bar> < 1 / 2"
      using up lo by linarith
    then have "round_half_even (nearest_double ?x * 10000) = 100 * p" by (rule rhe_near_int)
    then have r: "py_round4 (nearest_double ?x) = nearest_double ?x"
      by (simp add: py_round4_def)
    have "(of_int 0 :: rat) \<le> ?x" using pr by simp
    then have g0: "of_int 0 \<le> nearest_double ?x" by (rule nearest_double_ge_int[OF nz b52])
    have "?x \<le> of_int 1" using pr by simp
    then have l1: "nearest_double ?x \<le> of_int 1" by (rule nearest_double_le_int[OF nz b52])
    from r g0 l1 show ?thesis by simp
  qed
  show "pct_to_ratio (Some p) = Some (nearest_double ?x)"
    using main by (simp add: pct_to_ratio_def ex float_div_def)
  show "0 \<le> nearest_double ?x" "nearest_double ?x \<le> 1" using main by simp_all
qed

lemma SleepDay_init_fields:
  assumes "SleepDay_init d0 = Inr d"
  shows "d = d0\<lparr>sd_sleep_efficiency := normalize_efficiency (sd_sleep_efficiency d0)\<rparr>"
    and "nonneg_opt (sd_total_sleep_minutes d)" "nonneg_opt (sd_deep_sleep_minutes d)"
    and "nonneg_opt (sd_light_sleep_minutes d)" "nonneg_opt (sd_rem_sleep_minutes d)"
    and "nonneg_opt (sd_awake_minutes d)"
    and "case sd_sleep_efficiency d of None \<Rightarrow> True | Some e \<Rightarrow> 0 \<le> e \<and> e \<le> 1"
  using assms by (auto simp: SleepDay_init_def split: if_splits option.splits)

lemma oura_map_entry_fields:
  assumes "oura_map_entry lib now new_id patient_id entry = Inr (Some d)"
  shows "sd_total_sleep_minutes d = sec_to_min (oe_total_sleep_duration entry)"
    and "sd_deep_sleep_minutes d = sec_to_min (oe_deep_sleep_duration entry)"
    and "sd_light_sleep_minutes d = sec_to_min (oe_light_sleep_duration entry)"
    and "sd_rem_sleep_minutes d = sec_to_min (oe_rem_sleep_duration entry)"
    and "sd_awake_minutes d = sec_to_min (oe_awake_time entry)"
    and "sd_sleep_efficiency d = normalize_efficiency (pct_to_ratio (oe_efficiency entry))"
    and "sd_source d = OURA" and "sd_id d = new_id"
  using assms
  by (auto simp: oura_map_entry_def split: if_splits option.splits sum.splits
      dest!: SleepDay_init_fields(1))

section \<open>The pipeline\<close>

lemma upsert_statement_names: "sublist ''source_record_id'' upsert_statement"
proof -
  have "upsert_statement = ''[SQL: INSERT INTO sleep_days (id, patient_id, source, ''
      @ ''source_record_id'' @ '', raw_payload, fingerprint, effective_date, ingested_at, updated_at, total_sleep_minutes, deep_sleep_minutes, light_sleep_minutes, rem_sleep_minutes, awake_minutes, sleep_onset, sleep_offset, sleep_efficiency, extra) VALUES (...) ON CONFLICT (fingerprint) DO UPDATE SET ... RETURNING sleep_days.id, (xmax = 0) AS was_inserted]''"
    by (simp add: upsert_statement_def)
  then show ?thesis by (metis sublist_appendI)
qed

lemma upsert_error_message:
  assumes "upsert db_now tbl record = Inl exc"
  shows "\<exists>pre. message exc = pre @ upsert_statement"
proof (cases "check_constraints record")
  case (Some c)
  with assms have "exc = check_violation c" by (simp add: upsert_def)
  then show ?thesis by (simp add: check_violation_def)
next
  case None
  with assms have "exc = unique_violation ''sleep_days_pkey'' ''id''
      \<or> exc = unique_violation ''uq_sleep_days_source_record'' ''source, source_record_id''"
    by (auto simp: upsert_def split: option.splits if_splits)
  then show ?thesis by (auto simp: unique_violation_def)
qed

lemma upsert_error_names:
  assumes "upsert db_now tbl record = Inl exc"
  shows "names_source_record exc"
proof -
  from upsert_error_message[OF assms] obtain pre where m: "message exc = pre @ upsert_statement"
    by blast
  from upsert_statement_names obtain ps ss where
    "upsert_statement = ps @ ''source_record_id'' @ ss" by (auto simp: sublist_def)
  then have "message exc = (pre @ ps) @ ''source_record_id'' @ ss" using m by simp
  then have "sublist ''source_record_id'' (message exc)" by (metis sublist_appendI)
  then show ?thesis by (simp add: names_source_record_def)
qed


lemma ingest_record_step:
  assumes "counters_ok n result"
  shows "\<exists>result' s'. ingest_record e source pid rid sleep_day (result, s) = Inr (result', s')
           \<and> counters_ok (Suc n) result'"
proof (cases "validate_sleep_record (env_today e) (model_dump sleep_day) = []")
  case False
  then show ?thesis using assms
    by (simp add: ingest_record_def Let_def split_beta counters_ok_def quarantined_result_def)
next
  case True
  show ?thesis
  proof (cases "upsert (env_db_now e) (sleep_days (pending s)) (upsert_dict sleep_day)")
    case (Inl exc)
    then have "names_source_record exc" by (rule upsert_error_names)
    then show ?thesis using True Inl assms
      by (simp add: ingest_record_def Let_def split_beta counters_ok_def quarantined_result_def)
  next
    case (Inr p)
    obtain db_result tbl where p: "p = (db_result, tbl)" by (cases p)
    have "upsert_status db_result \<noteq> ''quarantined''" by (simp add: upsert_status_def)
    then show ?thesis using True Inr p assms
      by (simp add: ingest_record_def Let_def counters_ok_def)
  qed
qed

lemma ingest_records_counters:
  assumes "counters_ok n result"
  shows "\<exists>result' s'. ingest_records e source pid rid sds (result, s) = Inr (result', s')
           \<and> counters_ok (n + length sds) result'"
  using assms
proof (induction sds arbitrary: n result s)
  case Nil
  then show ?case by simp
next
  case (Cons sd sds)
  from ingest_record_step[OF Cons.prems] obtain r1 s1 where
    step: "ingest_record e source pid rid sd (result, s) = Inr (r1, s1)"
    and ok: "counters_ok (Suc n) r1" by blast
  from Cons.IH[OF ok, of s1] step show ?case by simp
qed


lemma store_raw_next: "next_uuid (snd (store_raw_response s r)) = next_uuid s + 1"
  "fst (store_raw_response s r) = next_uuid s"
  by (simp_all add: store_raw_response_def)


text \<open>
  C10. Whenever the adapter maps the payload to a list of records, the ingest call
  returns, and its result has one entry per mapped record; inserted, updated and
  quarantined add up to the number of mapped records; \<open>records_processed\<close> counts the
  inserted and the updated records only; every quarantined entry has the empty
  record id.
\<close>

theorem ingest_counters:
  assumes "parsed_records e s source raw_payload patient_id = Inr sds"
  shows "\<exists>result s'. ingest_sleep_data e s source raw_payload patient_id = Inr (result, s')
     \<and> length (results result) = length sds
     \<and> records_inserted result + records_updated result + records_quarantined result
         = length sds
     \<and> records_processed result = records_inserted result + records_updated result
     \<and> (\<forall>r\<in>set (results result). status r = ''quarantined'' \<longrightarrow> sleep_day_id r = None)"
proof -
  from assms obtain parse where ad: "get_adapter source = Inr parse"
    and p: "parse (env_lib e) (env_now e) (next_uuid s + 2) raw_payload patient_id = Inr sds"
    by (auto simp: parsed_records_def split: sum.splits)
  define r0 where "r0 = \<lparr> results = [], records_processed = 0, records_inserted = 0,
                          records_updated = 0, records_quarantined = 0,
                          batch_id = next_uuid s \<rparr>"
  define st where "st = store_raw_response (s\<lparr>next_uuid := next_uuid s + 1\<rparr>)
                 \<lparr> raw_id = 0, raw_patient_id = patient_id, raw_source = source,
                   raw_endpoint = ''/v2/'' @ source @ ''/sleep'',
                   raw_response_body = rr_json raw_payload, raw_http_status = 200,
                   raw_batch_id = next_uuid s \<rparr>"
  have nx: "next_uuid (snd st) = next_uuid s + 2" unfolding st_def by (simp add: store_raw_next)
  have c0: "counters_ok 0 r0" by (simp add: counters_ok_def r0_def)
  from ingest_records_counters[OF c0, of e source patient_id "fst st" sds
      "(snd st)\<lparr>next_uuid := next_uuid (snd st) + length sds\<rparr>"]
  obtain result s' where
    run: "ingest_records e source patient_id (fst st) sds
            (r0, (snd st)\<lparr>next_uuid := next_uuid (snd st) + length sds\<rparr>) = Inr (result, s')"
    and ok: "counters_ok (0 + length sds) result"
    by blast
  have "ingest_sleep_data e s source raw_payload patient_id = Inr (result, commit s')"
    unfolding ingest_sleep_data_def Let_def split_beta st_def[symmetric] r0_def[symmetric]
    using ad p run nx by simp
  then show ?thesis using ok by (auto simp: counters_ok_def)
qed

end
